theory Spec2Isabelle
  imports Complex_Main "HOL-Library.Sublist"
begin

section \<open>JavaScript strings and errors\<close>

text \<open>
  \<^verbatim>\<open>String.prototype.includes\<close>: does the string contain the given substring at some
  position. The empty substring is contained in every string.
\<close>

fun str_includes :: "string \<Rightarrow> string \<Rightarrow> bool" where
  "str_includes [] sub = (sub = [])"
| "str_includes (c # cs) sub = (prefix sub (c # cs) \<or> str_includes cs sub)"

text \<open>Decimal rendering of a non-negative integer inside a template literal.\<close>

definition digit :: "nat \<Rightarrow> char" where
  "digit d = ''0123456789'' ! d"

fun show_nat :: "nat \<Rightarrow> string" where
  "show_nat n = (if n < 10 then [digit n] else show_nat (n div 10) @ [digit (n mod 10)])"

declare show_nat.simps [simp del]

text \<open>\<^verbatim>\<open>Array.prototype.join\<close> on an array of strings.\<close>

fun join :: "string \<Rightarrow> string list \<Rightarrow> string" where
  "join sep [] = []"
| "join sep [x] = x"
| "join sep (x # y # ys) = x @ sep @ join sep (y # ys)"

text \<open>
  A thrown JavaScript error, with the four properties the request handler reads:
  \<^verbatim>\<open>error.name\<close>, \<^verbatim>\<open>error.message\<close>, \<^verbatim>\<open>error.constructor.name\<close> and \<^verbatim>\<open>error.stack\<close>.
\<close>

record js_error =
  e_name :: string
  e_message :: string
  e_ctor :: string
  e_stack :: string

text \<open>
  \<^verbatim>\<open>new Error(msg)\<close>. The stack is the header line followed by the frames the runtime
  renders; the frames are a parameter.
\<close>

definition new_Error :: "string \<Rightarrow> string \<Rightarrow> js_error" where
  "new_Error frames msg =
     \<lparr>e_name = ''Error'', e_message = msg, e_ctor = ''Error'',
      e_stack = ''Error: '' @ msg @ frames\<rparr>"

section \<open>Result/error classifier (catch block of the scrape handler)\<close>

text \<open>
  \<^verbatim>\<open>
  let statusCode = 500;
  if (error.name === "TimeoutError" || error.message.includes("timeout")
      || error.message.includes("exceeded")) { statusCode = 504; }
  else if (error.message.includes("selector") &&
           (error.message.includes("not found") ||
            error.message.includes("failed to find element"))) { statusCode = 404; }
  else if (error.message.includes("Navigation failed") ||
           error.message.includes("net::ERR_")) { statusCode = 502; }
  else if (error.message.includes("XPath evaluation failed")) { statusCode = 400; }
  \<close>
\<close>

definition statusCode :: "js_error \<Rightarrow> nat" where
  "statusCode error =
     (if e_name error = ''TimeoutError'' \<or> str_includes (e_message error) ''timeout''
         \<or> str_includes (e_message error) ''exceeded'' then 504
      else if str_includes (e_message error) ''selector''
         \<and> (str_includes (e_message error) ''not found''
            \<or> str_includes (e_message error) ''failed to find element'') then 404
      else if str_includes (e_message error) ''Navigation failed''
         \<or> str_includes (e_message error) ''net::ERR_'' then 502
      else if str_includes (e_message error) ''XPath evaluation failed'' then 400
      else 500)"

text \<open>
  The three-way condition of the first branch, and the conditions of the later ones,
  named for the statements below.
\<close>

definition is_timeout :: "js_error \<Rightarrow> bool" where
  "is_timeout error \<longleftrightarrow>
     e_name error = ''TimeoutError'' \<or> str_includes (e_message error) ''timeout''
       \<or> str_includes (e_message error) ''exceeded''"

definition is_selector_not_found :: "js_error \<Rightarrow> bool" where
  "is_selector_not_found error \<longleftrightarrow>
     str_includes (e_message error) ''selector''
       \<and> (str_includes (e_message error) ''not found''
          \<or> str_includes (e_message error) ''failed to find element'')"

definition is_navigation_failure :: "js_error \<Rightarrow> bool" where
  "is_navigation_failure error \<longleftrightarrow>
     str_includes (e_message error) ''Navigation failed''
       \<or> str_includes (e_message error) ''net::ERR_''"

definition is_xpath_failure :: "js_error \<Rightarrow> bool" where
  "is_xpath_failure error \<longleftrightarrow> str_includes (e_message error) ''XPath evaluation failed''"


section \<open>XPath extraction (the function evaluated in the page)\<close>

text \<open>
  A value the in-page function can return to the handler: \<^verbatim>\<open>null\<close>, a number, a string or a
  boolean. The handler never inspects a number, so it is carried as a real.
\<close>

datatype jsval = JNull | JNum real | JStr string | JBool bool

text \<open>A DOM node, with the three properties \<^verbatim>\<open>processNode\<close> reads.\<close>

record dom_node =
  nodeType :: nat
  outerHTML :: string
  nodeValue :: string

text \<open>The node-type constants of the DOM standard.\<close>

definition ELEMENT_NODE :: nat where "ELEMENT_NODE = 1"
definition ATTRIBUTE_NODE :: nat where "ATTRIBUTE_NODE = 2"
definition TEXT_NODE :: nat where "TEXT_NODE = 3"
definition COMMENT_NODE :: nat where "COMMENT_NODE = 8"

text \<open>
  \<^verbatim>\<open>
  const processNode = (node) => {
    if (!node) return null;
    switch (node.nodeType) {
      case Node.ELEMENT_NODE: return node.outerHTML;
      case Node.ATTRIBUTE_NODE:
      case Node.TEXT_NODE: return node.nodeValue;
      case Node.COMMENT_NODE: return `<!-- ${node.nodeValue} -->`;
      default: return `Unsupported node type: ${node.nodeType}`;
    }
  };
  \<close>
\<close>

fun processNode :: "dom_node option \<Rightarrow> jsval" where
  "processNode None = JNull"
| "processNode (Some node) =
     (if nodeType node = ELEMENT_NODE then JStr (outerHTML node)
      else if nodeType node = ATTRIBUTE_NODE \<or> nodeType node = TEXT_NODE
        then JStr (nodeValue node)
      else if nodeType node = COMMENT_NODE
        then JStr (''<!-- '' @ nodeValue node @ '' -->'')
      else JStr (''Unsupported node type: '' @ show_nat (nodeType node)))"

text \<open>
  An \<^verbatim>\<open>XPathResult\<close>. \<open>iterNodes\<close> is the sequence that successive calls of
  \<^verbatim>\<open>iterateNext()\<close> yield before \<^verbatim>\<open>null\<close>; \<open>snapshotItems\<close> is the snapshot, so that
  \<^verbatim>\<open>snapshotLength\<close> is its length and \<^verbatim>\<open>snapshotItem(i)\<close> is \<^verbatim>\<open>null\<close> out of range.
\<close>

record xpath_result =
  resultType :: nat
  numberValue :: real
  stringValue :: string
  booleanValue :: bool
  iterNodes :: "dom_node list"
  snapshotItems :: "dom_node list"
  singleNodeValue :: "dom_node option"

definition NUMBER_TYPE :: nat where "NUMBER_TYPE = 1"
definition STRING_TYPE :: nat where "STRING_TYPE = 2"
definition BOOLEAN_TYPE :: nat where "BOOLEAN_TYPE = 3"
definition UNORDERED_NODE_ITERATOR_TYPE :: nat where "UNORDERED_NODE_ITERATOR_TYPE = 4"
definition ORDERED_NODE_ITERATOR_TYPE :: nat where "ORDERED_NODE_ITERATOR_TYPE = 5"
definition UNORDERED_NODE_SNAPSHOT_TYPE :: nat where "UNORDERED_NODE_SNAPSHOT_TYPE = 6"
definition ORDERED_NODE_SNAPSHOT_TYPE :: nat where "ORDERED_NODE_SNAPSHOT_TYPE = 7"
definition ANY_UNORDERED_NODE_TYPE :: nat where "ANY_UNORDERED_NODE_TYPE = 8"
definition FIRST_ORDERED_NODE_TYPE :: nat where "FIRST_ORDERED_NODE_TYPE = 9"

definition snapshotLength :: "xpath_result \<Rightarrow> nat" where
  "snapshotLength result = length (snapshotItems result)"

definition snapshotItem :: "xpath_result \<Rightarrow> nat \<Rightarrow> dom_node option" where
  "snapshotItem result i =
     (if i < length (snapshotItems result) then Some (snapshotItems result ! i) else None)"

text \<open>
  \<^verbatim>\<open>let node; while ((node = result.iterateNext())) { results.push(processNode(node)); }\<close>
  The first argument is what the iterator has still to yield.
\<close>

fun iterate_loop :: "dom_node list \<Rightarrow> jsval list \<Rightarrow> jsval list" where
  "iterate_loop [] results = results"
| "iterate_loop (node # rest) results = iterate_loop rest (results @ [processNode (Some node)])"

text \<open>
  \<^verbatim>\<open>for (let i = 0; i < result.snapshotLength; i++)
       { results.push(processNode(result.snapshotItem(i))); }\<close>
\<close>

function snapshot_loop :: "xpath_result \<Rightarrow> nat \<Rightarrow> jsval list \<Rightarrow> jsval list" where
  "snapshot_loop result i results =
     (if i < snapshotLength result
      then snapshot_loop result (Suc i) (results @ [processNode (snapshotItem result i)])
      else results)"
  by pat_completeness auto
termination
  by (relation "measure (\<lambda>(result, i, results). snapshotLength result - i)") auto

declare snapshot_loop.simps [simp del]

text \<open>The \<^verbatim>\<open>switch (result.resultType)\<close> of the in-page function, with \<^verbatim>\<open>results = []\<close>.\<close>

definition xpath_switch :: "xpath_result \<Rightarrow> jsval list" where
  "xpath_switch result =
     (if resultType result = NUMBER_TYPE then [JNum (numberValue result)]
      else if resultType result = STRING_TYPE then [JStr (stringValue result)]
      else if resultType result = BOOLEAN_TYPE then [JBool (booleanValue result)]
      else if resultType result = UNORDERED_NODE_ITERATOR_TYPE
            \<or> resultType result = ORDERED_NODE_ITERATOR_TYPE
        then iterate_loop (iterNodes result) []
      else if resultType result = UNORDERED_NODE_SNAPSHOT_TYPE
            \<or> resultType result = ORDERED_NODE_SNAPSHOT_TYPE
        then snapshot_loop result 0 []
      else if resultType result = ANY_UNORDERED_NODE_TYPE
            \<or> resultType result = FIRST_ORDERED_NODE_TYPE
        then [processNode (singleNodeValue result)]
      else [JStr (''Unknown XPathResult type: '' @ show_nat (resultType result))])"

text \<open>
  The whole in-page function: the argument is what \<^verbatim>\<open>document.evaluate\<close> does on the page
  (it throws, or it returns a result); an exception is caught and thrown again as
  \<^verbatim>\<open>new Error(`XPath evaluation failed in browser: ${error.message}`)\<close>.
\<close>

definition xpath_in_page :: "string \<Rightarrow> js_error + xpath_result \<Rightarrow> js_error + jsval list" where
  "xpath_in_page frames evaluated =
     (case evaluated of
        Inl error \<Rightarrow>
          Inl (new_Error frames (''XPath evaluation failed in browser: '' @ e_message error))
      | Inr result \<Rightarrow> Inr (xpath_switch result))"


section \<open>The tab-duplicator extension (background.js)\<close>

text \<open>
  \<^verbatim>\<open>
  chrome.runtime.onMessage.addListener((request, sender, sendResponse) => {
    if (request.action === "duplicateTab") {
      chrome.tabs.query({ active: true, currentWindow: true }, (tabs) => {
        const currentTab = tabs[0];
        chrome.tabs.duplicate(currentTab.id, (newTab) => {
          sendResponse({ success: true, newTabId: newTab.id });
        });
      });
      return true;
    }
  });
  \<close>
  A message is its \<^verbatim>\<open>action\<close> property, if it has one. The reply of the extension to a
  \<^verbatim>\<open>duplicateTab\<close> command:
\<close>

record dup_response =
  success :: bool
  newTabId :: "nat option"
  error_text :: "string option"

text \<open>
  The browser side of the listener: the tabs \<^verbatim>\<open>chrome.tabs.query\<close> passes to its callback
  (their ids) and the tab \<^verbatim>\<open>chrome.tabs.duplicate\<close> passes to its callback, if any.
\<close>

record tabs_api =
  queried_tabs :: "nat list"
  duplicated_tab :: "nat option"

text \<open>
  What one invocation of the listener does: the arguments of its calls of
  \<^verbatim>\<open>sendResponse\<close>, in order, and whether it returned \<^verbatim>\<open>true\<close> (keeping the channel open).
  Reading \<^verbatim>\<open>.id\<close> of \<^verbatim>\<open>undefined\<close> throws inside the callback, before \<^verbatim>\<open>sendResponse\<close>.
\<close>

record listener_run =
  sent_responses :: "dup_response list"
  returned_true :: bool

definition onMessage :: "tabs_api \<Rightarrow> string option \<Rightarrow> listener_run" where
  "onMessage api action =
     (if action = Some ''duplicateTab'' then
        \<lparr>sent_responses =
           (case queried_tabs api of
              [] \<Rightarrow> []
            | currentTab # _ \<Rightarrow>
                (case duplicated_tab api of
                   None \<Rightarrow> []
                 | Some newTab \<Rightarrow>
                     [\<lparr>success = True, newTabId = Some newTab, error_text = None\<rparr>])),
         returned_true = True\<rparr>
      else \<lparr>sent_responses = [], returned_true = False\<rparr>)"

section \<open>The browser as the handler sees it\<close>

text \<open>How an awaited promise that races a timer has settled when the timer fires.\<close>

datatype 'a settled = Resolves 'a | Rejects js_error | Unsettled

text \<open>
  The reply to \<^verbatim>\<open>{action: "identify"}\<close>, as the handler reads it: \<^verbatim>\<open>undefined\<close>/\<^verbatim>\<open>null\<close>, or
  an object with its \<^verbatim>\<open>identity\<close> property (if it has one that is a string).
\<close>

datatype ident_response = Nullish | Reply "string option"

text \<open>
  What the callback of \<^verbatim>\<open>chrome.runtime.sendMessage({action: "duplicateTab"}, ...)\<close> finds:
  \<^verbatim>\<open>chrome.runtime.lastError\<close> (its message, if set) and the response (if any).
\<close>

record channel_result =
  lastError :: "string option"
  cb_response :: "dup_response option"

text \<open>
  A target of \<^verbatim>\<open>browser.targets()\<close>: \<^verbatim>\<open>type()\<close>, \<^verbatim>\<open>url()\<close>, and how its operations
  behave: the first \<^verbatim>\<open>worker()\<close> call (identity loop), the evaluation of the identify
  message, the second \<^verbatim>\<open>worker()\<close> call and the evaluation of the duplicateTab message.
\<close>

record target =
  t_type :: string
  t_url :: string
  t_worker :: "js_error + unit"
  t_identify :: "ident_response settled"
  t_worker_again :: "js_error + unit"
  t_duplicate :: "js_error + channel_result"

text \<open>The handle \<^verbatim>\<open>page.waitForSelector\<close> resolves to, with how its two operations behave.\<close>

record element_handle =
  h_outerHTML :: "js_error + string"
  h_dispose :: "js_error + unit"

text \<open>
  Everything outside the handler that one request meets: the environment variable, the
  stack frames of the errors created by \<^verbatim>\<open>new Error\<close>, the temporary directory, and the
  outcome of every awaited operation (\<open>Inl\<close>: it throws or rejects). Every awaited
  operation settles.
\<close>

record env =
  NODE_ENV :: "string option"
  frames :: string
  tmpdir :: string
  has_promises_rm :: bool
  mkdtemp_suffix :: "js_error + string"
  launch_result :: "js_error + unit"
  targets_result :: "js_error + target list"
  newPage_result :: "js_error + unit"
  setViewport_result :: "js_error + unit"
  setUserAgent_result :: "js_error + unit"
  goto_result :: "js_error + unit"
  dup_targets_result :: "js_error + target list"
  mouse_move_result :: "js_error + unit"
  scrollBy_result :: "js_error + unit"
  document_evaluate :: "js_error + xpath_result"
  waitForSelector_result :: "js_error + element_handle option"
  page_close_result :: "js_error + unit"
  browser_close_result :: "js_error + unit"
  rm_result :: "js_error + unit"

text \<open>
  \<^verbatim>\<open>fs.mkdtempSync(path.join(os.tmpdir(), "puppeteer-user-data-"))\<close>: the prefix followed
  by the characters the system appends.
\<close>

definition mkdtempSync :: "env \<Rightarrow> js_error + string" where
  "mkdtempSync e =
     (case mkdtemp_suffix e of
        Inl err \<Rightarrow> Inl err
      | Inr random \<Rightarrow> Inr (tmpdir e @ ''/puppeteer-user-data-'' @ random))"

section \<open>Responses and observable events\<close>

text \<open>
  The JSON body of an error response. A property whose value is \<^verbatim>\<open>undefined\<close> is left
  out of the serialized body: \<open>None\<close>.
\<close>

record error_body =
  eb_error :: string
  eb_details :: "string option"
  eb_type :: "string option"
  eb_stack :: "string option"

datatype payload = JsonError error_body | JsonValue "jsval list" | Html string

record response =
  r_status :: nat
  r_type :: string
  r_body :: payload

text \<open>The calls the handler makes on the outside world, in the order it makes them.\<close>

datatype event =
    MkdtempSync
  | Launch string
  | BrowserTargets
  | NewPage
  | SetViewport nat nat
  | SetUserAgent
  | Delay nat
  | Goto string nat
  | WorkerContext string
  | SendIdentify string nat
  | SendDuplicateTab string
  | MouseMove nat nat
  | ScrollBy nat nat
  | EvaluateXPath string
  | WaitForSelector string nat
  | HandleEvaluate
  | HandleDispose
  | Respond response
  | PageClose
  | BrowserClose
  | PromisesRm string
  | RmdirSync string

section \<open>Handler programs: local variables, trace, exceptions\<close>

text \<open>
  The three variables the \<^verbatim>\<open>finally\<close> block reads (\<open>False\<close>/\<open>None\<close>: still \<^verbatim>\<open>null\<close>),
  and the events so far.
\<close>

record vars =
  browser :: bool
  page :: bool
  userDataDir :: "string option"
  trace :: "event list"

text \<open>Appending events to the trace.\<close>

definition emit :: "event list \<Rightarrow> vars \<Rightarrow> vars" where
  "emit evs s = s\<lparr>trace := trace s @ evs\<rparr>"

type_synonym 'a prog = "vars \<Rightarrow> (js_error + 'a) \<times> vars"

definition pure :: "'a \<Rightarrow> 'a prog" where
  "pure x s = (Inr x, s)"

definition throw :: "js_error \<Rightarrow> 'a prog" where
  "throw e s = (Inl e, s)"

text \<open>Awaiting an operation of the outside world: the call is recorded, its outcome taken.\<close>

definition await :: "event \<Rightarrow> js_error + 'a \<Rightarrow> 'a prog" where
  "await ev outcome s = (outcome, emit [ev] s)"

definition assign :: "(vars \<Rightarrow> vars) \<Rightarrow> unit prog" where
  "assign upd s = (Inr (), upd s)"

definition read_var :: "(vars \<Rightarrow> 'a) \<Rightarrow> 'a prog" where
  "read_var f s = (Inr (f s), s)"

text \<open>Sequencing: an exception skips the rest.\<close>

definition seq :: "'a prog \<Rightarrow> ('a \<Rightarrow> 'b prog) \<Rightarrow> 'b prog" where
  "seq m f s = (case m s of (Inl e, s') \<Rightarrow> (Inl e, s') | (Inr x, s') \<Rightarrow> f x s')"

definition try_catch :: "'a prog \<Rightarrow> (js_error \<Rightarrow> 'a prog) \<Rightarrow> 'a prog" where
  "try_catch m handler s = (case m s of (Inl e, s') \<Rightarrow> handler e s' | (Inr x, s') \<Rightarrow> (Inr x, s'))"

text \<open>
  \<^verbatim>\<open>try { ... } finally { ... }\<close>: the finaliser always runs; if it throws, its exception
  replaces the outcome of the block.
\<close>

definition try_finally :: "'a prog \<Rightarrow> unit prog \<Rightarrow> 'a prog" where
  "try_finally m finaliser s =
     (case m s of (r, s') \<Rightarrow>
        (case finaliser s' of (Inl e, s'') \<Rightarrow> (Inl e, s'') | (Inr _, s'') \<Rightarrow> (r, s'')))"

definition respond :: "response \<Rightarrow> unit prog" where
  "respond r s = (Inr (), emit [Respond r] s)"


section \<open>duplicateTabViaExtension\<close>

text \<open>
  \<^verbatim>\<open>Promise.race([workerContext.evaluate(...identify...),
       new Promise((_, reject) => setTimeout(() => reject(new Error("timeout")), 1000))])\<close>
\<close>

definition identify_race :: "string \<Rightarrow> ident_response settled \<Rightarrow> js_error + ident_response" where
  "identify_race fr evaluation =
     (case evaluation of
        Resolves response \<Rightarrow> Inr response
      | Rejects e \<Rightarrow> Inl e
      | Unsettled \<Rightarrow> Inl (new_Error fr ''timeout''))"

text \<open>\<^verbatim>\<open>.catch((e) => { ...; return null; })\<close> on the race.\<close>

definition catch_null :: "js_error + ident_response \<Rightarrow> ident_response" where
  "catch_null raced = (case raced of Inl e \<Rightarrow> Nullish | Inr response \<Rightarrow> response)"

text \<open>\<^verbatim>\<open>identity && identity.identity === "tab-duplicator"\<close>\<close>

definition is_tab_duplicator :: "ident_response \<Rightarrow> bool" where
  "is_tab_duplicator identity =
     (case identity of Nullish \<Rightarrow> False | Reply i \<Rightarrow> i = Some ''tab-duplicator'')"

text \<open>
  The body of the \<^verbatim>\<open>for (const worker of serviceWorkers)\<close> loop, with its own
  \<^verbatim>\<open>try\<close>/\<^verbatim>\<open>catch\<close>: \<open>True\<close> when the worker is the tab duplicator (the loop then breaks),
  \<open>False\<close> when the loop goes on (no match, or \<^verbatim>\<open>continue\<close> in the catch).
\<close>

definition check_identity :: "string \<Rightarrow> target \<Rightarrow> bool prog" where
  "check_identity fr worker =
     try_catch
       (seq (await (WorkerContext (t_url worker)) (t_worker worker)) (\<lambda>workerContext.
        seq (await (SendIdentify (t_url worker) 1000)
               (Inr (catch_null (identify_race fr (t_identify worker))))) (\<lambda>identity.
        pure (is_tab_duplicator identity))))
       (\<lambda>e. pure False)"

fun identity_loop :: "string \<Rightarrow> target list \<Rightarrow> target option prog" where
  "identity_loop fr [] = pure None"
| "identity_loop fr (worker # rest) =
     seq (check_identity fr worker) (\<lambda>found.
       if found then pure (Some worker) else identity_loop fr rest)"

definition not_found_message :: "target list \<Rightarrow> string" where
  "not_found_message serviceWorkers =
     ''Tab-duplicator extension not found among '' @ show_nat (length serviceWorkers)
       @ '' service workers. '' @ ''Checked: '' @ join '', '' (map t_url serviceWorkers)"

text \<open>
  The callback of the duplicateTab message, in the worker:
  \<^verbatim>\<open>
  if (chrome.runtime.lastError) reject(new Error(chrome.runtime.lastError.message));
  else if (response && response.success) resolve(response);
  else if (!response) reject(new Error("No response from extension"));
  else reject(new Error(response.error || "Unknown error"));
  \<close>
\<close>

definition duplicate_callback :: "string \<Rightarrow> channel_result \<Rightarrow> js_error + dup_response" where
  "duplicate_callback fr ch =
     (case lastError ch of
        Some msg \<Rightarrow> Inl (new_Error fr msg)
      | None \<Rightarrow>
          (case cb_response ch of
             None \<Rightarrow> Inl (new_Error fr ''No response from extension'')
           | Some response \<Rightarrow>
               if success response then Inr response
               else Inl (new_Error fr
                      (case error_text response of
                         None \<Rightarrow> ''Unknown error''
                       | Some msg \<Rightarrow> if msg = [] then ''Unknown error'' else msg))))"

definition send_duplicateTab :: "string \<Rightarrow> target \<Rightarrow> js_error + dup_response" where
  "send_duplicateTab fr worker =
     (case t_duplicate worker of
        Inl e \<Rightarrow> Inl e
      | Inr ch \<Rightarrow> duplicate_callback fr ch)"

text \<open>
  \<^verbatim>\<open>targets.filter((t) => t.type() === "service_worker"
                         && t.url().includes("chrome-extension://"))\<close>
\<close>

definition serviceWorkers_of :: "target list \<Rightarrow> target list" where
  "serviceWorkers_of targets =
     filter (\<lambda>t. t_type t = ''service_worker'' \<and> str_includes (t_url t) ''chrome-extension://'')
       targets"

text \<open>The outer \<^verbatim>\<open>catch (error) { logDebug(...); throw error; }\<close> throws the same error again.\<close>

definition duplicateTabViaExtension :: "env \<Rightarrow> dup_response prog" where
  "duplicateTabViaExtension e =
     try_catch
       (seq (await BrowserTargets (dup_targets_result e)) (\<lambda>targets.
        seq (identity_loop (frames e) (serviceWorkers_of targets)) (\<lambda>tabDuplicatorWorker.
        case tabDuplicatorWorker of
          None \<Rightarrow> throw (new_Error (frames e) (not_found_message (serviceWorkers_of targets)))
        | Some worker \<Rightarrow>
            seq (await (WorkerContext (t_url worker)) (t_worker_again worker)) (\<lambda>workerContext.
            await (SendDuplicateTab (t_url worker)) (send_duplicateTab (frames e) worker)))))
       (\<lambda>error. throw error)"

section \<open>The scrape handler\<close>

text \<open>
  The handler of the third server of the repository (the one with
  \<^verbatim>\<open>duplicateTabViaExtension\<close>). Logging (\<^verbatim>\<open>logDebug\<close>, \<^verbatim>\<open>console.error\<close>) and the debug-only
  reading of the process limits, which has its own \<^verbatim>\<open>try\<close>/\<^verbatim>\<open>catch\<close>, change neither the
  control flow nor the calls below and are left out; sending a response does not throw.
\<close>

text \<open>
  The request body, \<^verbatim>\<open>const { url, selector, method = "css", debug = false } = req.body\<close>:
  \<open>None\<close> is a property that is absent. The fields have the types of the interface
  (strings and a boolean); \<open>method_name\<close> is the property \<^verbatim>\<open>method\<close>.
\<close>

record request =
  url :: "string option"
  selector :: "string option"
  method_name :: "string option"
  debug :: "bool option"

definition method_of :: "request \<Rightarrow> string" where
  "method_of req = (case method_name req of None \<Rightarrow> ''css'' | Some m \<Rightarrow> m)"

definition debug_of :: "request \<Rightarrow> bool" where
  "debug_of req = (case debug req of None \<Rightarrow> False | Some d \<Rightarrow> d)"

text \<open>\<^verbatim>\<open>!x\<close> for a property that is absent or a string.\<close>

definition falsy :: "string option \<Rightarrow> bool" where
  "falsy x = (case x of None \<Rightarrow> True | Some str \<Rightarrow> str = [])"

definition validation_response :: response where
  "validation_response =
     \<lparr>r_status = 400, r_type = ''application/json'',
      r_body = JsonError \<lparr>eb_error = ''Missing required fields: url and selector'',
                          eb_details = None, eb_type = None, eb_stack = None\<rparr>\<rparr>"

text \<open>
  Sections 3 and 4 of the \<^verbatim>\<open>try\<close> block: the profile directory, the launch, and the
  listing of the targets that follows it.
\<close>

definition launch_section :: "env \<Rightarrow> unit prog" where
  "launch_section e =
     seq (await MkdtempSync (mkdtempSync e)) (\<lambda>dir.
     seq (assign (\<lambda>s. s\<lparr>userDataDir := Some dir\<rparr>)) (\<lambda>_.
     seq (await (Launch dir) (launch_result e)) (\<lambda>_.
     seq (assign (\<lambda>s. s\<lparr>browser := True\<rparr>)) (\<lambda>_.
     seq (await BrowserTargets (targets_result e)) (\<lambda>allTargets.
     pure ())))))"

definition navigate_section :: "env \<Rightarrow> string \<Rightarrow> unit prog" where
  "navigate_section e u =
     seq (await NewPage (newPage_result e)) (\<lambda>_.
     seq (assign (\<lambda>s. s\<lparr>page := True\<rparr>)) (\<lambda>_.
     seq (await (SetViewport 1280 720) (setViewport_result e)) (\<lambda>_.
     seq (await SetUserAgent (setUserAgent_result e)) (\<lambda>_.
     seq (await (Delay 3000) (Inr ())) (\<lambda>_.
     await (Goto u 45000) (goto_result e))))))"

text \<open>
  \<^verbatim>\<open>
  if (url.includes("wsj.com/")) {
    try { await duplicateTabViaExtension(browser, logDebug); }
    catch (dupError) { /* logged; continue scraping even if duplication fails */ }
  }
  \<close>
\<close>

definition url_match_section :: "env \<Rightarrow> string \<Rightarrow> unit prog" where
  "url_match_section e u =
     (if str_includes u ''wsj.com/''
      then try_catch (seq (duplicateTabViaExtension e) (\<lambda>result. pure ())) (\<lambda>dupError. pure ())
      else pure ())"

definition postNavDelay :: "string \<Rightarrow> nat" where
  "postNavDelay m = (if m = ''xpath'' then 5000 else 2000)"

definition settle_section :: "env \<Rightarrow> string \<Rightarrow> unit prog" where
  "settle_section e m =
     seq (await (MouseMove 100 100) (mouse_move_result e)) (\<lambda>_.
     seq (await (ScrollBy 0 200) (scrollBy_result e)) (\<lambda>_.
     await (Delay (postNavDelay m)) (Inr ())))"

definition null_handle_message :: "string \<Rightarrow> string" where
  "null_handle_message sel =
     ''CSS selector \"'' @ sel
       @ ''\" was found by waitForSelector, but handle is unexpectedly null.''"

text \<open>
  Section 6 and the response: the XPath branch falls through to \<^verbatim>\<open>res.json(extractedData)\<close>;
  the CSS branch sends the markup with \<^verbatim>\<open>res.type("text/html")\<close> and returns.
\<close>

definition extract_section :: "env \<Rightarrow> string \<Rightarrow> string \<Rightarrow> unit prog" where
  "extract_section e sel m =
     (if m = ''xpath'' then
        seq (await (EvaluateXPath sel) (xpath_in_page (frames e) (document_evaluate e)))
          (\<lambda>extractedData.
        respond \<lparr>r_status = 200, r_type = ''application/json'',
                 r_body = JsonValue extractedData\<rparr>)
      else
        seq (await (WaitForSelector sel 15000) (waitForSelector_result e)) (\<lambda>elementHandle.
        case elementHandle of
          None \<Rightarrow> throw (new_Error (frames e) (null_handle_message sel))
        | Some handle \<Rightarrow>
            seq (await HandleEvaluate (h_outerHTML handle)) (\<lambda>extractedData.
            seq (await HandleDispose (h_dispose handle)) (\<lambda>_.
            respond \<lparr>r_status = 200, r_type = ''text/html'', r_body = Html extractedData\<rparr>))))"

definition try_block :: "env \<Rightarrow> string \<Rightarrow> string \<Rightarrow> string \<Rightarrow> unit prog" where
  "try_block e u sel m =
     seq (launch_section e) (\<lambda>_.
     seq (navigate_section e u) (\<lambda>_.
     seq (url_match_section e u) (\<lambda>_.
     seq (settle_section e m) (\<lambda>_.
     extract_section e sel m))))"

text \<open>
  The \<^verbatim>\<open>catch (error)\<close> block:
  \<^verbatim>\<open>
  res.status(statusCode).json({
    error: "Scraping failed", details: error.message, type: error.constructor.name,
    stack: debug || process.env.NODE_ENV === "development" ? error.stack : undefined });
  \<close>
\<close>

definition catch_block :: "env \<Rightarrow> bool \<Rightarrow> js_error \<Rightarrow> unit prog" where
  "catch_block e dbg error =
     respond \<lparr>r_status = statusCode error, r_type = ''application/json'',
              r_body = JsonError
                \<lparr>eb_error = ''Scraping failed'',
                 eb_details = Some (e_message error),
                 eb_type = Some (e_ctor error),
                 eb_stack = (if dbg \<or> NODE_ENV e = Some ''development''
                             then Some (e_stack error) else None)\<rparr>\<rparr>"

text \<open>
  The \<^verbatim>\<open>finally\<close> block: three guarded steps, each in its own \<^verbatim>\<open>try\<close>/\<^verbatim>\<open>catch\<close> whose
  handler only logs. \<^verbatim>\<open>if (userDataDir)\<close> is false for \<^verbatim>\<open>null\<close> and for the empty string.
\<close>

definition remove_dir :: "env \<Rightarrow> string \<Rightarrow> unit prog" where
  "remove_dir e dir =
     (if has_promises_rm e then await (PromisesRm dir) (rm_result e)
      else await (RmdirSync dir) (rm_result e))"

definition finally_block :: "env \<Rightarrow> unit prog" where
  "finally_block e =
     seq (read_var page) (\<lambda>p.
     seq (if p then try_catch (await PageClose (page_close_result e)) (\<lambda>err. pure ())
          else pure ()) (\<lambda>_.
     seq (read_var browser) (\<lambda>b.
     seq (if b then try_catch (await BrowserClose (browser_close_result e)) (\<lambda>err. pure ())
          else pure ()) (\<lambda>_.
     seq (read_var userDataDir) (\<lambda>d.
     case d of
       None \<Rightarrow> pure ()
     | Some dir \<Rightarrow>
         if dir \<noteq> [] then try_catch (remove_dir e dir) (\<lambda>err. pure ()) else pure ())))))"

definition initial :: vars where
  "initial = \<lparr>browser = False, page = False, userDataDir = None, trace = []\<rparr>"

text \<open>
  The handler of \<^verbatim>\<open>POST /scrape\<close>. The first component of the result is \<open>Inl\<close> when an
  exception leaves the handler; the second holds the trace of the request.
\<close>

definition scrape :: "env \<Rightarrow> request \<Rightarrow> (js_error + unit) \<times> vars" where
  "scrape e req =
     (if falsy (url req) \<or> falsy (selector req) then respond validation_response initial
      else
        try_finally
          (try_catch (try_block e (the (url req)) (the (selector req)) (method_of req))
             (catch_block e (debug_of req)))
          (finally_block e)
          initial)"

text \<open>The responses sent during a request, and the events of the \<^verbatim>\<open>finally\<close> block.\<close>

fun responses :: "event list \<Rightarrow> response list" where
  "responses [] = []"
| "responses (Respond r # evs) = r # responses evs"
| "responses (ev # evs) = responses evs"

fun is_cleanup :: "event \<Rightarrow> bool" where
  "is_cleanup PageClose = True"
| "is_cleanup BrowserClose = True"
| "is_cleanup (PromisesRm dir) = True"
| "is_cleanup (RmdirSync dir) = True"
| "is_cleanup ev = False"

fun is_extension_event :: "event \<Rightarrow> bool" where
  "is_extension_event BrowserTargets = True"
| "is_extension_event (WorkerContext u) = True"
| "is_extension_event (SendIdentify u ms) = True"
| "is_extension_event (SendDuplicateTab u) = True"
| "is_extension_event ev = False"

text \<open>
  A program that leaves the variables alone and appends to the trace a fixed list of
  events, all of them satisfying \<open>P\<close>, with a fixed outcome.
\<close>

definition appends_only :: "(event \<Rightarrow> bool) \<Rightarrow> 'a prog \<Rightarrow> bool" where
  "appends_only P m \<longleftrightarrow>
     (\<exists>r evs. list_all P evs \<and> (\<forall>s. m s = (r, emit evs s)))"


section \<open>Vocabulary of the statements\<close>

definition succeeds :: "'e + 'a \<Rightarrow> bool" where
  "succeeds outcome = (case outcome of Inl _ \<Rightarrow> False | Inr _ \<Rightarrow> True)"

text \<open>Every awaited operation before the extraction section succeeds.\<close>

definition reaches_extraction :: "env \<Rightarrow> bool" where
  "reaches_extraction e \<longleftrightarrow>
     succeeds (mkdtemp_suffix e) \<and> succeeds (launch_result e) \<and> succeeds (targets_result e)
     \<and> succeeds (newPage_result e) \<and> succeeds (setViewport_result e)
     \<and> succeeds (setUserAgent_result e) \<and> succeeds (goto_result e)
     \<and> succeeds (mouse_move_result e) \<and> succeeds (scrollBy_result e)"

text \<open>The call that removes the profile directory, as the \<^verbatim>\<open>finally\<close> block chooses it.\<close>

definition removal :: "env \<Rightarrow> string \<Rightarrow> event" where
  "removal e dir = (if has_promises_rm e then PromisesRm dir else RmdirSync dir)"

fun is_wait :: "event \<Rightarrow> bool" where
  "is_wait (WaitForSelector sel ms) = True"
| "is_wait ev = False"

text \<open>
  A worker that passes the identity handshake: its context is obtained and its reply,
  arriving before the timer fires, carries the identity \<^verbatim>\<open>tab-duplicator\<close>.
\<close>

definition identifies :: "target \<Rightarrow> bool" where
  "identifies w \<longleftrightarrow>
     succeeds (t_worker w) \<and> t_identify w = Resolves (Reply (Some ''tab-duplicator''))"

text \<open>The candidates up to and including the first that passes the handshake.\<close>

fun probed :: "target list \<Rightarrow> target list" where
  "probed [] = []"
| "probed (w # ws) = (if identifies w then [w] else w # probed ws)"

text \<open>The calls made on one candidate: its context, then (if that is obtained) the message.\<close>

definition probe_events :: "target \<Rightarrow> event list" where
  "probe_events w =
     WorkerContext (t_url w) # (if succeeds (t_worker w) then [SendIdentify (t_url w) 1000] else [])"

text \<open>
  Properties of handler programs. \<open>preserves obs m\<close>: running \<open>m\<close> never changes the
  observation \<open>obs\<close> of the state. \<open>uniform m\<close>: the outcome of \<open>m\<close> and the responses it
  sends do not depend on the state it starts in.
\<close>

definition preserves :: "(vars \<Rightarrow> 'b) \<Rightarrow> 'a prog \<Rightarrow> bool" where
  "preserves obs m \<longleftrightarrow> (\<forall>s. obs (snd (m s)) = obs s)"

definition uniform :: "'a prog \<Rightarrow> bool" where
  "uniform m \<longleftrightarrow>
     (\<forall>s. fst (m s) = fst (m initial)
        \<and> responses (trace (snd (m s))) = responses (trace s) @ responses (trace (snd (m initial))))"

section \<open>Concrete requests and environments\<close>

definition selector_timeout :: js_error where
  "selector_timeout =
     \<lparr>e_name = ''TimeoutError'',
      e_message = ''Waiting for selector `h1` failed: Waiting failed: 15000ms exceeded'',
      e_ctor = ''TimeoutError'',
      e_stack = ''TimeoutError: Waiting for selector `h1` failed''\<rparr>"

definition target_closed :: js_error where
  "target_closed =
     \<lparr>e_name = ''TargetCloseError'', e_message = ''Protocol error: Target closed'',
      e_ctor = ''TargetCloseError'', e_stack = ''TargetCloseError: Protocol error''\<rparr>"

definition worker_a :: target where
  "worker_a =
     \<lparr>t_type = ''service_worker'', t_url = ''chrome-extension://aaaa/background.js'',
      t_worker = Inr (), t_identify = Resolves (Reply (Some ''a'')),
      t_worker_again = Inr (),
      t_duplicate = Inr \<lparr>lastError = None, cb_response = None\<rparr>\<rparr>"

definition worker_td :: target where
  "worker_td =
     \<lparr>t_type = ''service_worker'', t_url = ''chrome-extension://bbbb/background.js'',
      t_worker = Inr (), t_identify = Resolves (Reply (Some ''tab-duplicator'')),
      t_worker_again = Inr (),
      t_duplicate = Inr \<lparr>lastError = None,
         cb_response = Some \<lparr>success = True, newTabId = Some 7, error_text = None\<rparr>\<rparr>\<rparr>"


definition no_nodes :: xpath_result where
  "no_nodes =
     \<lparr>resultType = 4, numberValue = 0, stringValue = [], booleanValue = False,
      iterNodes = [], snapshotItems = [], singleNodeValue = None\<rparr>"

definition the_h1 :: element_handle where
  "the_h1 = \<lparr>h_outerHTML = Inr ''<h1>Example Domain</h1>'', h_dispose = Inr ()\<rparr>"

definition env_ok :: env where
  "env_ok =
     \<lparr>NODE_ENV = None, frames = [], tmpdir = ''/tmp'', has_promises_rm = True,
      mkdtemp_suffix = Inr ''AbCdEf'', launch_result = Inr (),
      targets_result = Inr [worker_a, worker_td], newPage_result = Inr (),
      setViewport_result = Inr (), setUserAgent_result = Inr (), goto_result = Inr (),
      dup_targets_result = Inr [worker_a, worker_td],
      mouse_move_result = Inr (), scrollBy_result = Inr (),
      document_evaluate = Inr no_nodes,
      waitForSelector_result = Inr (Some the_h1),
      page_close_result = Inr (), browser_close_result = Inr (), rm_result = Inr ()\<rparr>"

definition req_css :: request where
  "req_css =
     \<lparr>url = Some ''https://example.com'', selector = Some ''h1'',
      method_name = Some ''css'', debug = None\<rparr>"

definition req_wsj :: request where
  "req_wsj =
     \<lparr>url = Some ''https://www.wsj.com/articles/x'', selector = Some ''//p/text()'',
      method_name = Some ''xpath'', debug = None\<rparr>"


definition eval_missing :: js_error where
  "eval_missing = new_Error [] ''failed to find element matching selector \".x\"''"

definition dns_failure :: js_error where
  "dns_failure = new_Error [] ''net::ERR_NAME_NOT_RESOLVED at https://nonexistent.example''"

definition bad_xpath :: js_error where
  "bad_xpath =
     new_Error [] ''XPath evaluation failed in browser: The string is not a valid XPath expression.''"










definition env_no_page :: env where
  "env_no_page = env_ok\<lparr>newPage_result := Inl target_closed\<rparr>"

definition env_cleanup_fails :: env where
  "env_cleanup_fails =
     env_ok\<lparr>page_close_result := Inl target_closed, browser_close_result := Inl target_closed,
            rm_result := Inl target_closed\<rparr>"

definition env_selector_missing :: env where
  "env_selector_missing = env_ok\<lparr>waitForSelector_result := Inl selector_timeout\<rparr>"

definition req_debug :: request where
  "req_debug = req_css\<lparr>debug := Some True\<rparr>"

definition env_development :: env where
  "env_development = env_selector_missing\<lparr>NODE_ENV := Some ''development''\<rparr>"

definition timeout_body :: "string option \<Rightarrow> error_body" where
  "timeout_body stack =
     \<lparr>eb_error = ''Scraping failed'', eb_details = Some (e_message selector_timeout),
      eb_type = Some ''TimeoutError'', eb_stack = stack\<rparr>"

definition worker_silent :: target where
  "worker_silent = worker_td\<lparr>t_url := ''chrome-extension://cccc/background.js'',
     t_identify := Unsettled\<rparr>"

definition env_no_extension :: env where
  "env_no_extension =
     env_ok\<lparr>dup_targets_result := Inr [worker_a, worker_a\<lparr>t_type := ''page''\<rparr>, worker_silent]\<rparr>"

section \<open>Properties of the string functions\<close>

text \<open>\<open>str_includes\<close> is the substring relation.\<close>

lemma str_includes_sublist: "str_includes s sub = sublist sub s"
  by (induction s) (simp_all add: sublist_Cons_right)

lemma str_includes_append: "str_includes (p @ sub @ q) sub"
  by (simp add: str_includes_sublist)

section \<open>The classifier\<close>

lemma xpath_in_page_failure:
  "xpath_in_page fr (Inl x) = Inl y \<Longrightarrow> is_xpath_failure y"
  using str_includes_append[of "[]" "''XPath evaluation failed''" "'' in browser: '' @ e_message x"]
  by (auto simp: xpath_in_page_def is_xpath_failure_def new_Error_def)

text \<open>
  Claim C2, as amended. The classifier is a chain of tests in a fixed order. An error
  named \<^verbatim>\<open>TimeoutError\<close>, or whose message contains \<^verbatim>\<open>timeout\<close> or \<^verbatim>\<open>exceeded\<close>, yields 504:
  that is what a navigation that never settles rejects with, and equally what a CSS
  selector wait that runs out rejects with. Otherwise a message with \<^verbatim>\<open>selector\<close> and
  \<^verbatim>\<open>not found\<close> or \<^verbatim>\<open>failed to find element\<close> yields 404; otherwise \<^verbatim>\<open>Navigation failed\<close>
  or \<^verbatim>\<open>net::ERR_\<close> yields 502; otherwise \<^verbatim>\<open>XPath evaluation failed\<close> (which every error
  of the in-page XPath function carries) yields 400; anything else yields 500.
\<close>

theorem statusCode_priority:
  "(e_name err = ''TimeoutError'' \<longrightarrow> statusCode err = 504)
   \<and> (is_timeout err \<longrightarrow> statusCode err = 504)
   \<and> (\<not> is_timeout err \<and> is_selector_not_found err \<longrightarrow> statusCode err = 404)
   \<and> (\<not> is_timeout err \<and> \<not> is_selector_not_found err \<and> is_navigation_failure err
        \<longrightarrow> statusCode err = 502)
   \<and> (\<not> is_timeout err \<and> \<not> is_selector_not_found err \<and> \<not> is_navigation_failure err
        \<and> is_xpath_failure err \<longrightarrow> statusCode err = 400)
   \<and> (\<not> is_timeout err \<and> \<not> is_selector_not_found err \<and> \<not> is_navigation_failure err
        \<and> \<not> is_xpath_failure err \<longrightarrow> statusCode err = 500)
   \<and> (\<forall>fr x y. xpath_in_page fr (Inl x) = Inl y \<longrightarrow> is_xpath_failure y)"
  by (auto simp: statusCode_def is_timeout_def is_selector_not_found_def
      is_navigation_failure_def is_xpath_failure_def dest: xpath_in_page_failure)

theorem statusCode_priority_witness:
  "statusCode selector_timeout = 504 \<and> statusCode eval_missing = 404
   \<and> statusCode dns_failure = 502 \<and> statusCode bad_xpath = 400
   \<and> statusCode target_closed = 500
   \<and> is_xpath_failure
        (new_Error [] ''XPath evaluation failed in browser: Protocol error: Target closed'')"
proof -
  have p: "xpath_in_page [] (Inl target_closed)
      = Inl (new_Error [] ''XPath evaluation failed in browser: Protocol error: Target closed'')"
    by (simp add: xpath_in_page_def target_closed_def)
  note 6 = statusCode_priority[of target_closed, THEN conjunct2, THEN conjunct2, THEN conjunct2,
      THEN conjunct2, THEN conjunct2, THEN conjunct2, rule_format, OF p]
  have t: "e_name selector_timeout = ''TimeoutError''"
    by (simp add: selector_timeout_def)
  have m: "\<not> is_timeout eval_missing \<and> is_selector_not_found eval_missing"
    by (simp add: eval_missing_def new_Error_def is_timeout_def is_selector_not_found_def)
  have d: "\<not> is_timeout dns_failure \<and> \<not> is_selector_not_found dns_failure
      \<and> is_navigation_failure dns_failure"
    by (simp add: dns_failure_def new_Error_def is_timeout_def is_selector_not_found_def
        is_navigation_failure_def)
  have x: "\<not> is_timeout bad_xpath \<and> \<not> is_selector_not_found bad_xpath
      \<and> \<not> is_navigation_failure bad_xpath \<and> is_xpath_failure bad_xpath"
    by (simp add: bad_xpath_def new_Error_def is_timeout_def is_selector_not_found_def
        is_navigation_failure_def is_xpath_failure_def)
  have c: "\<not> is_timeout target_closed \<and> \<not> is_selector_not_found target_closed
      \<and> \<not> is_navigation_failure target_closed \<and> \<not> is_xpath_failure target_closed"
    by (simp add: target_closed_def is_timeout_def is_selector_not_found_def
        is_navigation_failure_def is_xpath_failure_def)
  from t statusCode_priority[of selector_timeout]
  have 1: "statusCode selector_timeout = 504" by simp
  from m statusCode_priority[of eval_missing]
  have 2: "statusCode eval_missing = 404" by simp
  from d statusCode_priority[of dns_failure]
  have 3: "statusCode dns_failure = 502" by simp
  from x statusCode_priority[of bad_xpath]
  have 4: "statusCode bad_xpath = 400" by simp
  from c statusCode_priority[of target_closed]
  have 5: "statusCode target_closed = 500" by simp
  from 1 2 3 4 5 6 show ?thesis by (intro conjI)
qed

section \<open>The extension's message listener\<close>

text \<open>
  Claim C10. The listener of background.js calls \<^verbatim>\<open>sendResponse\<close> only for a message whose
  action is \<^verbatim>\<open>duplicateTab\<close>. For every other message, the identify message of the handshake
  among them, it sends no reply and does not keep the channel open.
\<close>

theorem onMessage_replies_only_to_duplicateTab:
  "(action \<noteq> Some ''duplicateTab'' \<longrightarrow>
      sent_responses (onMessage api action) = [] \<and> \<not> returned_true (onMessage api action))
   \<and> (sent_responses (onMessage api action) \<noteq> [] \<longrightarrow> action = Some ''duplicateTab'')"
  by (simp add: onMessage_def)

theorem onMessage_identify_witness:
  "Some ''identify'' \<noteq> Some ''duplicateTab''
   \<and> sent_responses (onMessage \<lparr>queried_tabs = [3], duplicated_tab = Some 4\<rparr> (Some ''identify'')) = []
   \<and> \<not> returned_true (onMessage \<lparr>queried_tabs = [3], duplicated_tab = Some 4\<rparr> (Some ''identify''))
   \<and> sent_responses (onMessage \<lparr>queried_tabs = [3], duplicated_tab = Some 4\<rparr> (Some ''duplicateTab''))
       = [\<lparr>success = True, newTabId = Some 4, error_text = None\<rparr>]"
proof -
  have h: "Some ''identify'' \<noteq> Some ''duplicateTab''" by simp
  have r: "sent_responses
      (onMessage \<lparr>queried_tabs = [3], duplicated_tab = Some 4\<rparr> (Some ''duplicateTab''))
       = [\<lparr>success = True, newTabId = Some 4, error_text = None\<rparr>]"
    by (simp add: onMessage_def)
  from h r onMessage_replies_only_to_duplicateTab
      [of "Some ''identify''" "\<lparr>queried_tabs = [3], duplicated_tab = Some 4\<rparr>"]
  show ?thesis by blast
qed

section \<open>The XPath loops\<close>

lemma iterate_loop_map:
  "iterate_loop nodes results = results @ map (\<lambda>n. processNode (Some n)) nodes"
  by (induction nodes arbitrary: results) simp_all

lemma snapshot_loop_drop:
  "i \<le> snapshotLength r \<Longrightarrow>
   snapshot_loop r i results
     = results @ map (\<lambda>n. processNode (Some n)) (drop i (snapshotItems r))"
proof (induction r i results rule: snapshot_loop.induct)
  case (1 result i results)
  show ?case
  proof (cases "i < snapshotLength result")
    case True
    then have "drop i (snapshotItems result)
        = snapshotItems result ! i # drop (Suc i) (snapshotItems result)"
      by (simp add: snapshotLength_def Cons_nth_drop_Suc)
    with True "1.IH" show ?thesis
      by (subst snapshot_loop.simps) (simp add: snapshotItem_def snapshotLength_def)
  next
    case False
    with "1.prems" show ?thesis
      by (subst snapshot_loop.simps) (simp add: snapshotLength_def)
  qed
qed

lemma snapshot_loop_map:
  "snapshot_loop r 0 [] = map (\<lambda>n. processNode (Some n)) (snapshotItems r)"
  using snapshot_loop_drop[of 0 r "[]"] by simp

section \<open>Handler programs: basic facts\<close>

lemma emit_simps [simp]:
  "trace (emit evs s) = trace s @ evs"
  "browser (emit evs s) = browser s"
  "page (emit evs s) = page s"
  "userDataDir (emit evs s) = userDataDir s"
  "emit [] s = s"
  "emit evs' (emit evs s) = emit (evs @ evs') s"
  by (simp_all add: emit_def)

lemmas prog_defs = seq_def await_def assign_def pure_def throw_def try_catch_def
  try_finally_def respond_def read_var_def

lemma seq_assoc: "seq (seq m f) g = seq m (\<lambda>x. seq (f x) g)"
  by (rule ext) (simp add: seq_def split: prod.split sum.split)

lemma try_catch_seq:
  "try_catch (seq m f) h s =
     (case m s of (Inl err, s1) \<Rightarrow> h err s1 | (Inr x, s1) \<Rightarrow> try_catch (f x) h s1)"
  by (simp add: try_catch_def seq_def split: prod.split sum.split)

lemma responses_append [simp]: "responses (xs @ ys) = responses xs @ responses ys"
  by (induction xs rule: responses.induct) simp_all

lemma responses_extension: "list_all is_extension_event evs \<Longrightarrow> responses evs = []"
  by (induction evs rule: responses.induct) simp_all

lemma filter_extension:
  "(\<And>ev. is_extension_event ev \<Longrightarrow> \<not> P ev) \<Longrightarrow> list_all is_extension_event evs
     \<Longrightarrow> filter P evs = []"
  by (induction evs) auto

subsection \<open>Programs that only append events\<close>

lemma appends_only_pure: "appends_only P (pure x)"
  unfolding appends_only_def pure_def by (rule exI[of _ "Inr x"], rule exI[of _ "[]"]) simp

lemma appends_only_throw: "appends_only P (throw e)"
  unfolding appends_only_def throw_def by (rule exI[of _ "Inl e"], rule exI[of _ "[]"]) simp

lemma appends_only_await: "P ev \<Longrightarrow> appends_only P (await ev outcome)"
  unfolding appends_only_def await_def by (rule exI[of _ outcome], rule exI[of _ "[ev]"]) simp

lemma appends_only_seq:
  assumes m: "appends_only P m" and f: "\<And>x. appends_only P (f x)"
  shows "appends_only P (seq m f)"
proof -
  from m obtain r evs where evs: "list_all P evs" and run: "\<And>s. m s = (r, emit evs s)"
    unfolding appends_only_def by blast
  show ?thesis
  proof (cases r)
    case (Inl e)
    then have "\<forall>s. seq m f s = (Inl e, emit evs s)"
      by (simp add: seq_def run)
    with evs show ?thesis unfolding appends_only_def by blast
  next
    case (Inr x)
    from f[of x] obtain r' evs' where evs': "list_all P evs'"
      and run': "\<And>s. f x s = (r', emit evs' s)"
      unfolding appends_only_def by blast
    from Inr have "\<forall>s. seq m f s = (r', emit (evs @ evs') s)"
      by (simp add: seq_def run run')
    moreover from evs evs' have "list_all P (evs @ evs')" by simp
    ultimately show ?thesis unfolding appends_only_def by blast
  qed
qed

lemma appends_only_try_catch:
  assumes m: "appends_only P m" and h: "\<And>e. appends_only P (h e)"
  shows "appends_only P (try_catch m h)"
proof -
  from m obtain r evs where evs: "list_all P evs" and run: "\<And>s. m s = (r, emit evs s)"
    unfolding appends_only_def by blast
  show ?thesis
  proof (cases r)
    case (Inr x)
    then have "\<forall>s. try_catch m h s = (Inr x, emit evs s)"
      by (simp add: try_catch_def run)
    with evs show ?thesis unfolding appends_only_def by blast
  next
    case (Inl e)
    from h[of e] obtain r' evs' where evs': "list_all P evs'"
      and run': "\<And>s. h e s = (r', emit evs' s)"
      unfolding appends_only_def by blast
    from Inl have "\<forall>s. try_catch m h s = (r', emit (evs @ evs') s)"
      by (simp add: try_catch_def run run')
    moreover from evs evs' have "list_all P (evs @ evs')" by simp
    ultimately show ?thesis unfolding appends_only_def by blast
  qed
qed

subsection \<open>Observations a program preserves\<close>

lemma preserves_pure: "preserves obs (pure x)"
  by (simp add: preserves_def pure_def)

lemma preserves_throw: "preserves obs (throw e)"
  by (simp add: preserves_def throw_def)

lemma preserves_read_var: "preserves obs (read_var f)"
  by (simp add: preserves_def read_var_def)

lemma preserves_await: "(\<And>s. obs (emit [ev] s) = obs s) \<Longrightarrow> preserves obs (await ev outcome)"
  by (simp add: preserves_def await_def)

lemma preserves_respond: "(\<And>s. obs (emit [Respond r] s) = obs s) \<Longrightarrow> preserves obs (respond r)"
  by (simp add: preserves_def respond_def)

lemma preserves_assign: "(\<And>s. obs (upd s) = obs s) \<Longrightarrow> preserves obs (assign upd)"
  by (simp add: preserves_def assign_def)

lemma preserves_seq:
  assumes "preserves obs m" and "\<And>x. preserves obs (f x)"
  shows "preserves obs (seq m f)"
  unfolding preserves_def
proof
  fix s
  obtain r s1 where run: "m s = (r, s1)" by (cases "m s")
  with assms(1) have s1: "obs s1 = obs s" by (auto simp: preserves_def dest: spec[of _ s])
  show "obs (snd (seq m f s)) = obs s"
  proof (cases r)
    case (Inl e)
    with run s1 show ?thesis by (simp add: seq_def)
  next
    case (Inr x)
    with run have "seq m f s = f x s1" by (simp add: seq_def)
    with assms(2)[of x] s1 show ?thesis by (simp add: preserves_def)
  qed
qed

lemma preserves_try_catch:
  assumes "preserves obs m" and "\<And>err. preserves obs (h err)"
  shows "preserves obs (try_catch m h)"
  unfolding preserves_def
proof
  fix s
  obtain r s1 where run: "m s = (r, s1)" by (cases "m s")
  with assms(1) have s1: "obs s1 = obs s" by (auto simp: preserves_def dest: spec[of _ s])
  show "obs (snd (try_catch m h s)) = obs s"
  proof (cases r)
    case (Inr x)
    with run s1 show ?thesis by (simp add: try_catch_def)
  next
    case (Inl err)
    with run have "try_catch m h s = h err s1" by (simp add: try_catch_def)
    with assms(2)[of err] s1 show ?thesis by (simp add: preserves_def)
  qed
qed

lemma preserves_appends_only:
  assumes "appends_only P m" and "\<And>evs s. list_all P evs \<Longrightarrow> obs (emit evs s) = obs s"
  shows "preserves obs m"
  using assms unfolding preserves_def appends_only_def by auto

lemma obs_try_catch_seq:
  assumes "\<And>x. preserves obs (f x)" and "\<And>err. preserves obs (h err)"
  shows "obs (snd (try_catch (seq m f) h s)) = obs (snd (m s))"
proof -
  obtain r s1 where run: "m s = (r, s1)" by (cases "m s")
  show ?thesis
  proof (cases r)
    case (Inl err)
    with run assms(2)[of err] show ?thesis by (simp add: try_catch_seq preserves_def)
  next
    case (Inr x)
    from assms have "preserves obs (try_catch (f x) h)" by (intro preserves_try_catch)
    with Inr run show ?thesis by (simp add: try_catch_seq preserves_def)
  qed
qed

subsection \<open>Programs whose outcome and responses do not depend on the state\<close>

lemma uniform_pure: "uniform (pure x)"
  by (simp add: uniform_def pure_def initial_def)

lemma uniform_throw: "uniform (throw e)"
  by (simp add: uniform_def throw_def initial_def)

lemma uniform_await: "uniform (await ev outcome)"
  by (simp add: uniform_def await_def initial_def)

lemma uniform_respond: "uniform (respond r)"
  by (simp add: uniform_def respond_def initial_def)

lemma uniform_seq:
  assumes m: "uniform m" and f: "\<And>x. uniform (f x)"
  shows "uniform (seq m f)"
  unfolding uniform_def
proof
  fix s
  obtain r s1 where run: "m s = (r, s1)" by (cases "m s")
  obtain r0 s0 where run0: "m initial = (r0, s0)" by (cases "m initial")
  from m[unfolded uniform_def, rule_format, of s] run run0 have r: "r = r0"
    and t: "responses (trace s1) = responses (trace s) @ responses (trace s0)"
    by simp_all
  show "fst (seq m f s) = fst (seq m f initial)
      \<and> responses (trace (snd (seq m f s)))
          = responses (trace s) @ responses (trace (snd (seq m f initial)))"
  proof (cases r0)
    case (Inl e)
    with run run0 r t show ?thesis by (simp add: seq_def)
  next
    case (Inr x)
    from f[of x, unfolded uniform_def] have 1: "fst (f x s1) = fst (f x initial)"
      and 2: "responses (trace (snd (f x s1)))
          = responses (trace s1) @ responses (trace (snd (f x initial)))"
      and 3: "fst (f x s0) = fst (f x initial)"
      and 4: "responses (trace (snd (f x s0)))
          = responses (trace s0) @ responses (trace (snd (f x initial)))"
      by blast+
    from Inr run run0 r have eqs: "seq m f s = f x s1" "seq m f initial = f x s0"
      by (simp_all add: seq_def)
    have a: "fst (seq m f s) = fst (seq m f initial)"
      by (simp only: eqs 1 3)
    have b: "responses (trace (snd (seq m f s)))
        = responses (trace s) @ responses (trace (snd (seq m f initial)))"
      by (simp only: eqs 2 4 t append_assoc)
    from a b show ?thesis by (rule conjI)
  qed
qed

lemma uniform_try_catch:
  assumes m: "uniform m" and h: "\<And>err. uniform (h err)"
  shows "uniform (try_catch m h)"
  unfolding uniform_def
proof
  fix s
  obtain r s1 where run: "m s = (r, s1)" by (cases "m s")
  obtain r0 s0 where run0: "m initial = (r0, s0)" by (cases "m initial")
  from m[unfolded uniform_def, rule_format, of s] run run0 have r: "r = r0"
    and t: "responses (trace s1) = responses (trace s) @ responses (trace s0)"
    by simp_all
  show "fst (try_catch m h s) = fst (try_catch m h initial)
      \<and> responses (trace (snd (try_catch m h s)))
          = responses (trace s) @ responses (trace (snd (try_catch m h initial)))"
  proof (cases r0)
    case (Inr x)
    with run run0 r t show ?thesis by (simp add: try_catch_def)
  next
    case (Inl err)
    from h[of err, unfolded uniform_def] have 1: "fst (h err s1) = fst (h err initial)"
      and 2: "responses (trace (snd (h err s1)))
          = responses (trace s1) @ responses (trace (snd (h err initial)))"
      and 3: "fst (h err s0) = fst (h err initial)"
      and 4: "responses (trace (snd (h err s0)))
          = responses (trace s0) @ responses (trace (snd (h err initial)))"
      by blast+
    from Inl run run0 r have eqs: "try_catch m h s = h err s1" "try_catch m h initial = h err s0"
      by (simp_all add: try_catch_def)
    have a: "fst (try_catch m h s) = fst (try_catch m h initial)"
      by (simp only: eqs 1 3)
    have b: "responses (trace (snd (try_catch m h s)))
        = responses (trace s) @ responses (trace (snd (try_catch m h initial)))"
      by (simp only: eqs 2 4 t append_assoc)
    from a b show ?thesis by (rule conjI)
  qed
qed

section \<open>The side effect\<close>

lemma appends_only_check_identity: "appends_only is_extension_event (check_identity fr w)"
  unfolding check_identity_def
  by (intro appends_only_try_catch appends_only_seq appends_only_await appends_only_pure) simp_all

lemma appends_only_identity_loop: "appends_only is_extension_event (identity_loop fr ws)"
proof (induction ws)
  case Nil
  show ?case by (simp add: appends_only_pure)
next
  case (Cons w ws)
  show ?case
    by (simp only: identity_loop.simps)
      (intro appends_only_seq appends_only_check_identity, simp add: appends_only_pure Cons.IH)
qed

lemma appends_only_duplicateTabViaExtension:
  "appends_only is_extension_event (duplicateTabViaExtension e)"
  unfolding duplicateTabViaExtension_def
  by (intro appends_only_try_catch appends_only_seq appends_only_await appends_only_throw
        appends_only_identity_loop)
     (auto simp: appends_only_throw intro!: appends_only_seq appends_only_await split: option.split)

lemma appends_only_url_match_section:
  "appends_only is_extension_event (url_match_section e u)"
  unfolding url_match_section_def
  by (auto intro!: appends_only_try_catch appends_only_seq appends_only_pure
        appends_only_duplicateTabViaExtension)

lemma url_match_section_never_throws: "fst (url_match_section e u s) = Inr ()"
  unfolding url_match_section_def
  by (cases "duplicateTabViaExtension e s")
     (auto simp: try_catch_def seq_def pure_def split: sum.splits)

lemma url_match_section_run:
  "\<exists>evs. list_all is_extension_event evs \<and> (\<forall>s. url_match_section e u s = (Inr (), emit evs s))"
proof -
  from appends_only_url_match_section[of e u]
  obtain r evs where evs: "list_all is_extension_event evs"
    and run: "\<And>s. url_match_section e u s = (r, emit evs s)"
    unfolding appends_only_def by blast
  from run[of initial] url_match_section_never_throws[of e u initial] have "r = Inr ()"
    by simp
  with evs run show ?thesis by blast
qed

lemma preserves_url_match_section:
  assumes "\<And>evs s. list_all is_extension_event evs \<Longrightarrow> obs (emit evs s) = obs s"
  shows "preserves obs (url_match_section e u)"
  using appends_only_url_match_section assms by (rule preserves_appends_only)

section \<open>The finally block\<close>

lemma finally_block_run:
  "finally_block e s =
     (Inr (),
      emit ((if page s then [PageClose] else [])
            @ (if browser s then [BrowserClose] else [])
            @ (case userDataDir s of
                 None \<Rightarrow> []
               | Some dir \<Rightarrow> if dir \<noteq> [] then [removal e dir] else [])) s)"
  by (cases "page_close_result e"; cases "browser_close_result e"; cases "rm_result e")
     (simp_all add: finally_block_def remove_dir_def removal_def prog_defs split: option.split)

section \<open>Sections of the try block\<close>

lemma mkdtempSync_nonempty: "mkdtempSync e = Inr dir \<Longrightarrow> dir \<noteq> []"
  by (auto simp: mkdtempSync_def split: sum.splits)

lemma launch_section_run:
  assumes "mkdtempSync e = Inr dir" and "launch_result e = Inr ()"
  shows "launch_section e s =
     (case targets_result e of Inl err \<Rightarrow> Inl err | Inr ts \<Rightarrow> Inr (),
      emit [MkdtempSync, Launch dir, BrowserTargets] (s\<lparr>userDataDir := Some dir, browser := True\<rparr>))"
  using assms by (simp add: launch_section_def prog_defs emit_def split: sum.split)

lemma navigate_section_page:
  "page (snd (navigate_section e u s)) = (page s \<or> succeeds (newPage_result e))"
  by (simp add: navigate_section_def prog_defs succeeds_def split: sum.split)

lemmas preserves_intros = preserves_seq preserves_await preserves_assign preserves_pure
  preserves_throw preserves_respond preserves_try_catch preserves_url_match_section
  preserves_read_var

lemma extension_not_cleanup: "is_extension_event ev \<Longrightarrow> \<not> is_cleanup ev"
  by (cases ev) simp_all

lemma extension_not_wait: "is_extension_event ev \<Longrightarrow> \<not> is_wait ev"
  by (cases ev) simp_all

lemma preserves_cleanup_body:
  "preserves (\<lambda>s. filter is_cleanup (trace s))
     (try_catch (try_block e u sel m) (catch_block e dbg))"
  unfolding try_block_def launch_section_def navigate_section_def settle_section_def
    extract_section_def catch_block_def
  by (auto intro!: preserves_intros filter_extension dest: extension_not_cleanup
      split: option.split)

lemma preserves_vars_after_launch:
  "preserves userDataDir (seq (navigate_section e u) (\<lambda>_.
     seq (url_match_section e u) (\<lambda>_. seq (settle_section e m) (\<lambda>_. extract_section e sel m))))"
  "preserves browser (seq (navigate_section e u) (\<lambda>_.
     seq (url_match_section e u) (\<lambda>_. seq (settle_section e m) (\<lambda>_. extract_section e sel m))))"
  unfolding navigate_section_def settle_section_def extract_section_def
  by (auto intro!: preserves_intros split: option.split)

lemma preserves_page_after_navigate:
  "preserves page
     (seq (url_match_section e u) (\<lambda>_. seq (settle_section e m) (\<lambda>_. extract_section e sel m)))"
  unfolding settle_section_def extract_section_def
  by (auto intro!: preserves_intros split: option.split)

lemma preserves_vars_catch_block:
  "preserves userDataDir (catch_block e dbg err)"
  "preserves browser (catch_block e dbg err)"
  "preserves page (catch_block e dbg err)"
  unfolding catch_block_def by (auto intro!: preserves_intros)

lemma catch_block_never_throws: "fst (try_catch m (catch_block e dbg) s) = Inr ()"
  by (cases "m s") (auto simp: try_catch_def catch_block_def respond_def split: sum.split)

section \<open>Cleanup\<close>

lemmas section_defs = launch_section_def navigate_section_def settle_section_def
  extract_section_def catch_block_def finally_block_def remove_dir_def url_match_section_def
  try_block_def

lemmas example_defs = env_ok_def req_css_def req_wsj_def worker_a_def worker_td_def
  the_h1_def no_nodes_def selector_timeout_def target_closed_def

lemmas request_defs = falsy_def method_of_def debug_of_def mkdtempSync_def initial_def

lemma body_vars:
  fixes e u sel m dbg
  assumes dir: "mkdtempSync e = Inr dir" and launch: "launch_result e = Inr ()"
  defines "s' \<equiv> snd (try_catch (try_block e u sel m) (catch_block e dbg) initial)"
  shows "userDataDir s' = Some dir" and "browser s'"
    and "page s' = (succeeds (targets_result e) \<and> succeeds (newPage_result e))"
proof -
  let ?rest = "\<lambda>_::unit. seq (navigate_section e u) (\<lambda>_.
     seq (url_match_section e u) (\<lambda>_. seq (settle_section e m) (\<lambda>_. extract_section e sel m)))"
  let ?after = "\<lambda>_::unit.
     seq (url_match_section e u) (\<lambda>_. seq (settle_section e m) (\<lambda>_. extract_section e sel m))"
  let ?h = "catch_block e dbg"
  have tb: "try_block e u sel m = seq (launch_section e) ?rest"
    by (simp add: try_block_def)
  have "userDataDir s' = userDataDir (snd (launch_section e initial))"
    unfolding s'_def tb
    by (rule obs_try_catch_seq) (simp_all add: preserves_vars_after_launch preserves_vars_catch_block)
  then show "userDataDir s' = Some dir"
    by (simp add: launch_section_run[OF dir launch])
  have "browser s' = browser (snd (launch_section e initial))"
    unfolding s'_def tb
    by (rule obs_try_catch_seq) (simp_all add: preserves_vars_after_launch preserves_vars_catch_block)
  then show "browser s'"
    by (simp add: launch_section_run[OF dir launch])
  show "page s' = (succeeds (targets_result e) \<and> succeeds (newPage_result e))"
  proof (cases "targets_result e")
    case (Inl err)
    then have "s' = snd (?h err (emit [MkdtempSync, Launch dir, BrowserTargets]
        (initial\<lparr>userDataDir := Some dir, browser := True\<rparr>)))"
      by (simp add: s'_def tb try_catch_seq launch_section_run[OF dir launch])
    with preserves_vars_catch_block(3)[of e dbg err] Inl show ?thesis
      by (simp add: preserves_def succeeds_def initial_def)
  next
    case (Inr ts)
    let ?s1 = "emit [MkdtempSync, Launch dir, BrowserTargets]
        (initial\<lparr>userDataDir := Some dir, browser := True\<rparr>)"
    from Inr have "s' = snd (try_catch (seq (navigate_section e u) ?after) ?h ?s1)"
      by (simp add: s'_def tb try_catch_seq launch_section_run[OF dir launch])
    moreover have "page (snd (try_catch (seq (navigate_section e u) ?after) ?h ?s1))
        = page (snd (navigate_section e u ?s1))"
      by (rule obs_try_catch_seq)
         (simp_all add: preserves_page_after_navigate preserves_vars_catch_block)
    ultimately show ?thesis using Inr
      by (simp add: navigate_section_page succeeds_def initial_def)
  qed
qed

text \<open>
  Claim C1, as amended. For every request that creates a browser session (profile
  directory created, browser launched), the finally block attempts to close the page
  exactly once if a page was created and not at all otherwise, then attempts exactly once
  to close the browser, then exactly once to remove the profile directory; these are the
  last calls of the request and the only teardown calls, whatever the extraction did and
  whatever each teardown call does; and no exception leaves the handler.
\<close>

theorem cleanup_after_session:
  assumes "mkdtempSync e = Inr dir" and "launch_result e = Inr ()"
    and "\<not> falsy (url req)" and "\<not> falsy (selector req)"
  shows "filter is_cleanup (trace (snd (scrape e req)))
           = (if succeeds (targets_result e) \<and> succeeds (newPage_result e) then [PageClose] else [])
             @ [BrowserClose, removal e dir]
       \<and> suffix ((if succeeds (targets_result e) \<and> succeeds (newPage_result e)
                  then [PageClose] else []) @ [BrowserClose, removal e dir])
           (trace (snd (scrape e req)))
       \<and> fst (scrape e req) = Inr ()"
proof -
  define body where
    "body = try_catch (try_block e (the (url req)) (the (selector req)) (method_of req))
       (catch_block e (debug_of req))"
  define s' where "s' = snd (body initial)"
  define cleanup where
    "cleanup = (if succeeds (targets_result e) \<and> succeeds (newPage_result e) then [PageClose] else [])
       @ [BrowserClose, removal e dir]"
  have r: "fst (body initial) = Inr ()"
    unfolding body_def by (rule catch_block_never_throws)
  from assms(1,2) have vars: "userDataDir s' = Some dir" "browser s'"
    "page s' = (succeeds (targets_result e) \<and> succeeds (newPage_result e))"
    unfolding s'_def body_def by (rule body_vars)+
  from assms(1) have ne: "dir \<noteq> []" by (rule mkdtempSync_nonempty)
  from vars ne have fin: "finally_block e s' = (Inr (), emit cleanup s')"
    by (simp add: finally_block_run cleanup_def)
  from assms(3,4) have "scrape e req = try_finally body (finally_block e) initial"
    by (simp add: scrape_def body_def)
  with r fin have run: "scrape e req = (Inr (), emit cleanup s')"
    by (cases "body initial") (simp add: try_finally_def s'_def)
  have "filter is_cleanup (trace s') = filter is_cleanup (trace initial)"
    using preserves_cleanup_body[of e "the (url req)" "the (selector req)" "method_of req"
        "debug_of req"]
    by (simp add: preserves_def s'_def body_def)
  then have before: "filter is_cleanup (trace s') = []"
    by (simp add: initial_def)
  have all: "filter is_cleanup cleanup = cleanup"
    by (simp add: cleanup_def removal_def)
  from run before all have "filter is_cleanup (trace (snd (scrape e req))) = cleanup"
    by simp
  moreover from run have "suffix cleanup (trace (snd (scrape e req)))"
    by (simp add: suffix_def)
  moreover from run have "fst (scrape e req) = Inr ()" by simp
  ultimately show ?thesis unfolding cleanup_def by blast
qed

theorem cleanup_after_session_witness:
  "filter is_cleanup (trace (snd (scrape env_cleanup_fails req_css)))
     = [PageClose, BrowserClose, PromisesRm ''/tmp/puppeteer-user-data-AbCdEf'']
   \<and> fst (scrape env_cleanup_fails req_css) = Inr ()"
proof -
  have 1: "mkdtempSync env_cleanup_fails = Inr ''/tmp/puppeteer-user-data-AbCdEf''"
    by (simp add: env_cleanup_fails_def example_defs request_defs)
  have 2: "launch_result env_cleanup_fails = Inr ()"
    by (simp add: env_cleanup_fails_def example_defs)
  have 3: "\<not> falsy (url req_css)" and 4: "\<not> falsy (selector req_css)"
    by (simp_all add: example_defs request_defs)
  have 5: "succeeds (targets_result env_cleanup_fails) \<and> succeeds (newPage_result env_cleanup_fails)"
    by (simp add: env_cleanup_fails_def example_defs succeeds_def)
  have 6: "removal env_cleanup_fails ''/tmp/puppeteer-user-data-AbCdEf''
      = PromisesRm ''/tmp/puppeteer-user-data-AbCdEf''"
    by (simp add: env_cleanup_fails_def example_defs removal_def)
  from cleanup_after_session[OF 1 2 3 4] 5 6 show ?thesis by simp
qed

text \<open>
  Claim C1 as stated fails: when the browser is launched and \<^verbatim>\<open>browser.newPage()\<close> throws,
  \<^verbatim>\<open>page\<close> is still \<^verbatim>\<open>null\<close> in the finally block and no attempt is made to close a page.
\<close>

theorem page_teardown_counterexample:
  "mkdtempSync env_no_page = Inr ''/tmp/puppeteer-user-data-AbCdEf''
   \<and> launch_result env_no_page = Inr ()
   \<and> filter is_cleanup (trace (snd (scrape env_no_page req_css)))
       = [BrowserClose, PromisesRm ''/tmp/puppeteer-user-data-AbCdEf'']"
  by (simp add: scrape_def section_defs prog_defs example_defs request_defs env_no_page_def
      statusCode_def)

section \<open>Validation\<close>

text \<open>
  Claim C3. When \<^verbatim>\<open>url\<close> or \<^verbatim>\<open>selector\<close> is missing or empty, the handler answers 400 with
  the validation error and does nothing else: the response is the only event of the
  request, so no profile directory is created and no browser is launched.
\<close>

theorem validation_before_resources:
  assumes "url req = None \<or> url req = Some [] \<or> selector req = None \<or> selector req = Some []"
  shows "trace (snd (scrape e req)) = [Respond validation_response]
       \<and> r_status validation_response = 400
       \<and> userDataDir (snd (scrape e req)) = None \<and> \<not> browser (snd (scrape e req))
       \<and> \<not> page (snd (scrape e req)) \<and> fst (scrape e req) = Inr ()"
proof -
  from assms have "falsy (url req) \<or> falsy (selector req)"
    by (auto simp: falsy_def)
  then have "scrape e req = (Inr (), emit [Respond validation_response] initial)"
    by (simp add: scrape_def respond_def)
  then show ?thesis
    by (simp add: initial_def validation_response_def)
qed

theorem validation_before_resources_witness:
  "trace (snd (scrape env_ok (req_css\<lparr>selector := Some []\<rparr>))) = [Respond validation_response]
   \<and> trace (snd (scrape env_ok (req_css\<lparr>url := None\<rparr>))) = [Respond validation_response]
   \<and> r_status validation_response = 400"
proof -
  have 1: "url (req_css\<lparr>selector := Some []\<rparr>) = None \<or> url (req_css\<lparr>selector := Some []\<rparr>) = Some []
      \<or> selector (req_css\<lparr>selector := Some []\<rparr>) = None
      \<or> selector (req_css\<lparr>selector := Some []\<rparr>) = Some []"
    by simp
  have 2: "url (req_css\<lparr>url := None\<rparr>) = None \<or> url (req_css\<lparr>url := None\<rparr>) = Some []
      \<or> selector (req_css\<lparr>url := None\<rparr>) = None \<or> selector (req_css\<lparr>url := None\<rparr>) = Some []"
    by simp
  from validation_before_resources[OF 1, of env_ok] validation_before_resources[OF 2, of env_ok]
  show ?thesis by simp
qed

section \<open>A selector wait that times out\<close>

text \<open>
  Claim C2 as stated fails: when the CSS selector wait runs out, the rejection is a
  \<^verbatim>\<open>TimeoutError\<close>, the first test of the classifier matches, and the response has status
  504, not 404.
\<close>

theorem selector_wait_timeout_counterexample:
  "map r_status (responses (trace (snd (scrape env_selector_missing req_css)))) = [504]
   \<and> statusCode selector_timeout \<noteq> 404"
  by (simp add: scrape_def section_defs prog_defs example_defs request_defs
      env_selector_missing_def statusCode_def)

section \<open>XPath extraction\<close>

lemmas xpath_type_defs = NUMBER_TYPE_def STRING_TYPE_def BOOLEAN_TYPE_def
  UNORDERED_NODE_ITERATOR_TYPE_def ORDERED_NODE_ITERATOR_TYPE_def
  UNORDERED_NODE_SNAPSHOT_TYPE_def ORDERED_NODE_SNAPSHOT_TYPE_def
  ANY_UNORDERED_NODE_TYPE_def FIRST_ORDERED_NODE_TYPE_def


lemma extract_section_xpath:
  "document_evaluate e = Inr r \<Longrightarrow>
   extract_section e sel ''xpath'' s =
     (Inr (), emit [EvaluateXPath sel,
        Respond \<lparr>r_status = 200, r_type = ''application/json'',
                 r_body = JsonValue (xpath_switch r)\<rparr>] s)"
  by (simp add: extract_section_def xpath_in_page_def prog_defs)



section \<open>Requests that reach the extraction\<close>

lemma succeedsE: "succeeds r \<Longrightarrow> (\<And>x. r = Inr x \<Longrightarrow> thesis) \<Longrightarrow> thesis"
  by (cases r) (simp_all add: succeeds_def)

lemma try_block_reaches_extraction:
  assumes "reaches_extraction e"
  shows "\<exists>dir evs. mkdtempSync e = Inr dir \<and> list_all is_extension_event evs
     \<and> (\<forall>s. url_match_section e u s = (Inr (), emit evs s))
     \<and> try_block e u sel m initial =
         extract_section e sel m
           \<lparr>browser = True, page = True, userDataDir = Some dir,
            trace = [MkdtempSync, Launch dir, BrowserTargets, NewPage, SetViewport 1280 720,
                     SetUserAgent, Delay 3000, Goto u 45000]
                    @ evs @ [MouseMove 100 100, ScrollBy 0 200, Delay (postNavDelay m)]\<rparr>"
proof -
  from assms obtain sfx ts where ok: "mkdtemp_suffix e = Inr sfx" "launch_result e = Inr ()"
    "targets_result e = Inr ts" "newPage_result e = Inr ()" "setViewport_result e = Inr ()"
    "setUserAgent_result e = Inr ()" "goto_result e = Inr ()" "mouse_move_result e = Inr ()"
    "scrollBy_result e = Inr ()"
    unfolding reaches_extraction_def by (auto elim!: succeedsE)
  obtain evs where evs: "list_all is_extension_event evs"
    and um: "\<And>s. url_match_section e u s = (Inr (), emit evs s)"
    using url_match_section_run by blast
  have "try_block e u sel m initial =
         extract_section e sel m
           \<lparr>browser = True, page = True,
            userDataDir = Some (tmpdir e @ ''/puppeteer-user-data-'' @ sfx),
            trace = [MkdtempSync, Launch (tmpdir e @ ''/puppeteer-user-data-'' @ sfx),
                     BrowserTargets, NewPage, SetViewport 1280 720,
                     SetUserAgent, Delay 3000, Goto u 45000]
                    @ evs @ [MouseMove 100 100, ScrollBy 0 200, Delay (postNavDelay m)]\<rparr>"
    by (simp add: try_block_def launch_section_def navigate_section_def settle_section_def
        prog_defs ok um mkdtempSync_def initial_def emit_def)
  moreover from ok have "mkdtempSync e = Inr (tmpdir e @ ''/puppeteer-user-data-'' @ sfx)"
    by (simp add: mkdtempSync_def)
  ultimately show ?thesis using evs um by blast
qed

lemma scrape_valid:
  assumes "url req = Some u" and "selector req = Some sel" and "u \<noteq> []" and "sel \<noteq> []"
  shows "scrape e req =
     try_finally (try_catch (try_block e u sel (method_of req)) (catch_block e (debug_of req)))
       (finally_block e) initial"
  using assms by (simp add: scrape_def falsy_def)

text \<open>
  Claim C5. With the CSS method, the handler waits for the selector with a timeout of
  15000 ms; when the wait yields a handle, the handler reads the outer markup through the
  handle, then disposes of the handle, then sends the markup as the body with content type
  \<^verbatim>\<open>text/html\<close>; these four calls follow one another in the trace, and the markup is the
  only response of the request.
\<close>

theorem css_extraction_success:
  assumes "url req = Some u" and "selector req = Some sel" and "u \<noteq> []" and "sel \<noteq> []"
    and "method_of req \<noteq> ''xpath''" and "reaches_extraction e"
    and "waitForSelector_result e = Inr (Some h)"
    and "h_outerHTML h = Inr html" and "h_dispose h = Inr ()"
  shows "responses (trace (snd (scrape e req)))
           = [\<lparr>r_status = 200, r_type = ''text/html'', r_body = Html html\<rparr>]
       \<and> sublist [WaitForSelector sel 15000, HandleEvaluate, HandleDispose,
                  Respond \<lparr>r_status = 200, r_type = ''text/html'', r_body = Html html\<rparr>]
           (trace (snd (scrape e req)))"
proof -
  let ?rsp = "\<lparr>r_status = 200, r_type = ''text/html'', r_body = Html html\<rparr>"
  from try_block_reaches_extraction[OF assms(6), of u sel "method_of req"]
  obtain dir evs where dir: "mkdtempSync e = Inr dir"
    and evs: "list_all is_extension_event evs"
    and tb: "try_block e u sel (method_of req) initial =
         extract_section e sel (method_of req)
           \<lparr>browser = True, page = True, userDataDir = Some dir,
            trace = [MkdtempSync, Launch dir, BrowserTargets, NewPage, SetViewport 1280 720,
                     SetUserAgent, Delay 3000, Goto u 45000]
                    @ evs @ [MouseMove 100 100, ScrollBy 0 200,
                             Delay (postNavDelay (method_of req))]\<rparr>"
    by blast
  from dir have ne: "dir \<noteq> []" by (rule mkdtempSync_nonempty)
  let ?pre = "[MkdtempSync, Launch dir, BrowserTargets, NewPage, SetViewport 1280 720,
      SetUserAgent, Delay 3000, Goto u 45000]
      @ evs @ [MouseMove 100 100, ScrollBy 0 200, Delay (postNavDelay (method_of req))]"
  let ?post = "[PageClose, BrowserClose, removal e dir]"
  have run: "trace (snd (scrape e req))
      = ?pre @ [WaitForSelector sel 15000, HandleEvaluate, HandleDispose, Respond ?rsp] @ ?post"
    using assms(5,7,8,9) ne
    by (simp add: scrape_valid[OF assms(1-4)] try_finally_def try_catch_def tb
        extract_section_def finally_block_run prog_defs emit_def)
  have "responses (trace (snd (scrape e req))) = [?rsp]"
    by (simp add: run responses_extension[OF evs] removal_def)
  moreover have "sublist [WaitForSelector sel 15000, HandleEvaluate, HandleDispose, Respond ?rsp]
      (trace (snd (scrape e req)))"
    unfolding run sublist_def by blast
  ultimately show ?thesis by simp
qed

theorem css_extraction_success_witness:
  "responses (trace (snd (scrape env_ok req_css)))
     = [\<lparr>r_status = 200, r_type = ''text/html'', r_body = Html ''<h1>Example Domain</h1>''\<rparr>]
   \<and> sublist [WaitForSelector ''h1'' 15000, HandleEvaluate, HandleDispose,
        Respond \<lparr>r_status = 200, r_type = ''text/html'',
                 r_body = Html ''<h1>Example Domain</h1>''\<rparr>]
       (trace (snd (scrape env_ok req_css)))"
proof -
  have 1: "url req_css = Some ''https://example.com''" and 2: "selector req_css = Some ''h1''"
    and 3: "''https://example.com'' \<noteq> []" and 4: "''h1'' \<noteq> []"
    and 5: "method_of req_css \<noteq> ''xpath''"
    by (simp_all add: req_css_def method_of_def)
  have 6: "reaches_extraction env_ok"
    by (simp add: reaches_extraction_def succeeds_def env_ok_def)
  have 7: "waitForSelector_result env_ok = Inr (Some the_h1)"
    by (simp add: env_ok_def)
  have 8: "h_outerHTML the_h1 = Inr ''<h1>Example Domain</h1>''" and 9: "h_dispose the_h1 = Inr ()"
    by (simp_all add: the_h1_def)
  from css_extraction_success[OF 1 2 3 4 5 6 7 8 9] show ?thesis .
qed

section \<open>All requests\<close>

lemma scrape_cases:
  "scrape e req =
     (if falsy (url req) \<or> falsy (selector req)
      then (Inr (), emit [Respond validation_response] initial)
      else (Inr (),
            snd (finally_block e
              (snd (try_catch (try_block e (the (url req)) (the (selector req)) (method_of req))
                      (catch_block e (debug_of req)) initial)))))"
proof -
  let ?body = "try_catch (try_block e (the (url req)) (the (selector req)) (method_of req))
      (catch_block e (debug_of req))"
  have "fst (?body initial) = Inr ()" by (rule catch_block_never_throws)
  then have "try_finally ?body (finally_block e) initial
      = (Inr (), snd (finally_block e (snd (?body initial))))"
    by (cases "?body initial") (simp add: try_finally_def finally_block_run)
  then show ?thesis by (simp add: scrape_def respond_def)
qed

lemma preserves_wait_xpath_body:
  "preserves (\<lambda>s. filter is_wait (trace s))
     (try_catch (try_block e u sel ''xpath'') (catch_block e dbg))"
  unfolding try_block_def launch_section_def navigate_section_def settle_section_def
    extract_section_def catch_block_def
  by (auto intro!: preserves_intros filter_extension dest: extension_not_wait)

lemma preserves_finally_block:
  assumes "\<And>evs s. list_all is_cleanup evs \<Longrightarrow> obs (emit evs s) = obs s"
  shows "preserves obs (finally_block e)"
  unfolding preserves_def finally_block_run
  by (auto intro!: assms simp: removal_def split: option.split)

lemma filter_wait_cleanup: "list_all is_cleanup evs \<Longrightarrow> filter is_wait evs = []"
  by (induction evs) (auto elim: is_cleanup.elims)

lemma responses_cleanup: "list_all is_cleanup evs \<Longrightarrow> responses evs = []"
  by (induction evs rule: responses.induct) simp_all

text \<open>
  Claim C9. An XPath request whose expression evaluates to a node set with no node is
  answered with status 200 and the empty JSON array; and no request with the XPath method
  ever waits for a selector.
\<close>

theorem xpath_no_match_is_empty_success:
  "(url req = Some u \<and> selector req = Some sel \<and> u \<noteq> [] \<and> sel \<noteq> []
      \<and> method_of req = ''xpath'' \<and> reaches_extraction e \<and> document_evaluate e = Inr r
      \<and> ((resultType r = UNORDERED_NODE_ITERATOR_TYPE \<or> resultType r = ORDERED_NODE_ITERATOR_TYPE)
            \<and> iterNodes r = []
          \<or> (resultType r = UNORDERED_NODE_SNAPSHOT_TYPE \<or> resultType r = ORDERED_NODE_SNAPSHOT_TYPE)
            \<and> snapshotItems r = [])
      \<longrightarrow> responses (trace (snd (scrape e req)))
            = [\<lparr>r_status = 200, r_type = ''application/json'', r_body = JsonValue []\<rparr>])
   \<and> (method_of req = ''xpath'' \<longrightarrow> filter is_wait (trace (snd (scrape e req))) = [])"
proof (intro conjI impI)
  assume a: "url req = Some u \<and> selector req = Some sel \<and> u \<noteq> [] \<and> sel \<noteq> []
      \<and> method_of req = ''xpath'' \<and> reaches_extraction e \<and> document_evaluate e = Inr r
      \<and> ((resultType r = UNORDERED_NODE_ITERATOR_TYPE \<or> resultType r = ORDERED_NODE_ITERATOR_TYPE)
            \<and> iterNodes r = []
          \<or> (resultType r = UNORDERED_NODE_SNAPSHOT_TYPE \<or> resultType r = ORDERED_NODE_SNAPSHOT_TYPE)
            \<and> snapshotItems r = [])"
  then have empty: "xpath_switch r = []"
    by (auto simp: xpath_switch_def xpath_type_defs iterate_loop_map snapshot_loop_map)
  from a have valid: "url req = Some u" "selector req = Some sel" "u \<noteq> []" "sel \<noteq> []"
    and m: "method_of req = ''xpath''" and reach: "reaches_extraction e"
    and ev: "document_evaluate e = Inr r"
    by simp_all
  from try_block_reaches_extraction[OF reach, of u sel "''xpath''"]
  obtain dir evs where dir: "mkdtempSync e = Inr dir"
    and evs: "list_all is_extension_event evs"
    and tb: "try_block e u sel ''xpath'' initial =
         extract_section e sel ''xpath''
           \<lparr>browser = True, page = True, userDataDir = Some dir,
            trace = [MkdtempSync, Launch dir, BrowserTargets, NewPage, SetViewport 1280 720,
                     SetUserAgent, Delay 3000, Goto u 45000]
                    @ evs @ [MouseMove 100 100, ScrollBy 0 200, Delay (postNavDelay ''xpath'')]\<rparr>"
    by blast
  from dir have ne: "dir \<noteq> []" by (rule mkdtempSync_nonempty)
  show "responses (trace (snd (scrape e req)))
      = [\<lparr>r_status = 200, r_type = ''application/json'', r_body = JsonValue []\<rparr>]"
    using ne empty
    by (simp add: scrape_valid[OF valid] m try_finally_def try_catch_def tb
        extract_section_xpath[OF ev] finally_block_run emit_def responses_extension[OF evs]
        removal_def)
next
  assume m: "method_of req = ''xpath''"
  let ?body = "try_catch (try_block e (the (url req)) (the (selector req)) ''xpath'')
      (catch_block e (debug_of req))"
  have "preserves (\<lambda>s. filter is_wait (trace s)) (finally_block e)"
    by (rule preserves_finally_block) (simp add: filter_wait_cleanup)
  then have "filter is_wait (trace (snd (finally_block e (snd (?body initial)))))
      = filter is_wait (trace (snd (?body initial)))"
    by (simp add: preserves_def)
  also have "\<dots> = filter is_wait (trace initial)"
    using preserves_wait_xpath_body[of e "the (url req)" "the (selector req)" "debug_of req"]
    by (simp add: preserves_def)
  finally show "filter is_wait (trace (snd (scrape e req))) = []"
    by (simp add: scrape_cases m initial_def)
qed

theorem xpath_no_match_is_empty_success_witness:
  "responses (trace (snd (scrape env_ok req_wsj)))
     = [\<lparr>r_status = 200, r_type = ''application/json'', r_body = JsonValue []\<rparr>]
   \<and> filter is_wait (trace (snd (scrape env_ok req_wsj))) = []"
proof -
  have "url req_wsj = Some ''https://www.wsj.com/articles/x''
      \<and> selector req_wsj = Some ''//p/text()''
      \<and> ''https://www.wsj.com/articles/x'' \<noteq> [] \<and> ''//p/text()'' \<noteq> []
      \<and> method_of req_wsj = ''xpath'' \<and> reaches_extraction env_ok
      \<and> document_evaluate env_ok = Inr no_nodes
      \<and> ((resultType no_nodes = UNORDERED_NODE_ITERATOR_TYPE
             \<or> resultType no_nodes = ORDERED_NODE_ITERATOR_TYPE) \<and> iterNodes no_nodes = []
          \<or> (resultType no_nodes = UNORDERED_NODE_SNAPSHOT_TYPE
             \<or> resultType no_nodes = ORDERED_NODE_SNAPSHOT_TYPE) \<and> snapshotItems no_nodes = [])"
    by (simp add: req_wsj_def method_of_def reaches_extraction_def succeeds_def env_ok_def
        no_nodes_def xpath_type_defs)
  moreover have "method_of req_wsj = ''xpath''"
    by (simp add: req_wsj_def method_of_def)
  ultimately show ?thesis
    using xpath_no_match_is_empty_success
      [of req_wsj "''https://www.wsj.com/articles/x''" "''//p/text()''" env_ok no_nodes]
    by blast
qed

section \<open>The response of a request\<close>

lemma extract_section_answers:
  "case extract_section e sel m s of
     (Inl err, s') \<Rightarrow> responses (trace s') = responses (trace s)
   | (Inr x, s') \<Rightarrow>
       (\<exists>rsp. responses (trace s') = responses (trace s) @ [rsp] \<and> (\<forall>b. r_body rsp \<noteq> JsonError b))"
  by (simp add: extract_section_def prog_defs xpath_in_page_def split: sum.split option.split)

lemma preserves_responses_before_extraction:
  "preserves (\<lambda>s. responses (trace s))
     (seq (launch_section e) (\<lambda>_. seq (navigate_section e u) (\<lambda>_.
      seq (url_match_section e u) (\<lambda>_. settle_section e m))))"
  unfolding launch_section_def navigate_section_def settle_section_def
  by (auto intro!: preserves_intros simp: responses_extension)

lemma try_block_split:
  "try_block e u sel m =
     seq (seq (launch_section e) (\<lambda>_. seq (navigate_section e u) (\<lambda>_.
            seq (url_match_section e u) (\<lambda>_. settle_section e m))))
       (\<lambda>_. extract_section e sel m)"
  by (simp add: try_block_def seq_assoc)

lemma try_block_answers:
  "case try_block e u sel m s of
     (Inl err, s') \<Rightarrow> responses (trace s') = responses (trace s)
   | (Inr x, s') \<Rightarrow>
       (\<exists>rsp. responses (trace s') = responses (trace s) @ [rsp] \<and> (\<forall>b. r_body rsp \<noteq> JsonError b))"
proof -
  let ?pre = "seq (launch_section e) (\<lambda>_. seq (navigate_section e u) (\<lambda>_.
      seq (url_match_section e u) (\<lambda>_. settle_section e m)))"
  obtain r1 s1 where run: "?pre s = (r1, s1)" by (cases "?pre s")
  with preserves_responses_before_extraction[of e u m]
  have same: "responses (trace s1) = responses (trace s)"
    by (auto simp: preserves_def dest: spec[of _ s])
  show ?thesis
  proof (cases r1)
    case (Inl err)
    with run same show ?thesis by (simp add: try_block_split seq_def)
  next
    case (Inr x)
    with run have "try_block e u sel m s = extract_section e sel m s1"
      by (simp add: try_block_split seq_def)
    with extract_section_answers[where e = e and sel = sel and m = m and s = s1] same
    show ?thesis by (auto split: prod.splits sum.splits)
  qed
qed

lemma body_answers:
  "\<exists>rsp. responses (trace (snd (try_catch (try_block e u sel m) (catch_block e dbg) s)))
          = responses (trace s) @ [rsp]
     \<and> (\<forall>b. r_body rsp = JsonError b \<longrightarrow>
          (eb_stack b \<noteq> None) = (dbg \<or> NODE_ENV e = Some ''development''))"
proof -
  obtain r s1 where run: "try_block e u sel m s = (r, s1)" by (cases "try_block e u sel m s")
  show ?thesis
  proof (cases r)
    case (Inl err)
    with run try_block_answers[where e = e and u = u and sel = sel and m = m and s = s] show ?thesis
      by (simp add: try_catch_def catch_block_def respond_def)
  next
    case (Inr x)
    with run try_block_answers[where e = e and u = u and sel = sel and m = m and s = s] show ?thesis
      by (auto simp: try_catch_def)
  qed
qed

lemma preserves_responses_finally_block: "preserves (\<lambda>s. responses (trace s)) (finally_block e)"
  by (rule preserves_finally_block) (simp add: responses_cleanup)

text \<open>
  Claim C7, as amended. Every request is answered exactly once. The error response of the
  catch block carries the stack trace if and only if the request set the debug flag or
  the process runs with \<^verbatim>\<open>NODE_ENV\<close> equal to \<^verbatim>\<open>development\<close>; the validation error response
  never carries it.
\<close>

theorem stack_in_error_response:
  "\<exists>rsp. responses (trace (snd (scrape e req))) = [rsp]
     \<and> (\<forall>b. r_body rsp = JsonError b \<longrightarrow>
          (eb_stack b \<noteq> None)
            = (\<not> falsy (url req) \<and> \<not> falsy (selector req)
               \<and> (debug_of req \<or> NODE_ENV e = Some ''development'')))"
proof (cases "falsy (url req) \<or> falsy (selector req)")
  case True
  then have "responses (trace (snd (scrape e req))) = [validation_response]"
    by (simp add: scrape_cases initial_def)
  moreover have "\<forall>b. r_body validation_response = JsonError b \<longrightarrow> eb_stack b = None"
    by (simp add: validation_response_def)
  ultimately show ?thesis using True by auto
next
  case False
  let ?body = "try_catch (try_block e (the (url req)) (the (selector req)) (method_of req))
      (catch_block e (debug_of req))"
  from body_answers[where e = e and u = "the (url req)" and sel = "the (selector req)"
      and m = "method_of req" and dbg = "debug_of req" and s = initial]
  obtain rsp where rsp: "responses (trace (snd (?body initial))) = [rsp]"
    and stack: "\<forall>b. r_body rsp = JsonError b \<longrightarrow>
          (eb_stack b \<noteq> None) = (debug_of req \<or> NODE_ENV e = Some ''development'')"
    by (auto simp: initial_def)
  from preserves_responses_finally_block[of e]
  have "responses (trace (snd (finally_block e (snd (?body initial)))))
      = responses (trace (snd (?body initial)))"
    by (simp add: preserves_def)
  with rsp False have "responses (trace (snd (scrape e req))) = [rsp]"
    by (simp add: scrape_cases)
  with stack False show ?thesis by auto
qed

theorem stack_in_error_response_witness:
  "responses (trace (snd (scrape env_selector_missing req_debug)))
     = [\<lparr>r_status = 504, r_type = ''application/json'',
         r_body = JsonError (timeout_body (Some (e_stack selector_timeout)))\<rparr>]
   \<and> responses (trace (snd (scrape env_selector_missing req_css)))
     = [\<lparr>r_status = 504, r_type = ''application/json'', r_body = JsonError (timeout_body None)\<rparr>]
   \<and> (eb_stack (timeout_body (Some (e_stack selector_timeout))) \<noteq> None)
     = (\<not> falsy (url req_debug) \<and> \<not> falsy (selector req_debug)
        \<and> (debug_of req_debug \<or> NODE_ENV env_selector_missing = Some ''development''))
   \<and> (eb_stack (timeout_body None) \<noteq> None)
     = (\<not> falsy (url req_css) \<and> \<not> falsy (selector req_css)
        \<and> (debug_of req_css \<or> NODE_ENV env_selector_missing = Some ''development''))"
proof -
  have 1: "responses (trace (snd (scrape env_selector_missing req_debug)))
     = [\<lparr>r_status = 504, r_type = ''application/json'',
         r_body = JsonError (timeout_body (Some (e_stack selector_timeout)))\<rparr>]"
    by (simp add: scrape_def section_defs prog_defs example_defs request_defs
        env_selector_missing_def req_debug_def timeout_body_def statusCode_def)
  have 2: "responses (trace (snd (scrape env_selector_missing req_css)))
     = [\<lparr>r_status = 504, r_type = ''application/json'', r_body = JsonError (timeout_body None)\<rparr>]"
    by (simp add: scrape_def section_defs prog_defs example_defs request_defs
        env_selector_missing_def timeout_body_def statusCode_def)
  from stack_in_error_response[of env_selector_missing req_debug] 1
  have 3: "(eb_stack (timeout_body (Some (e_stack selector_timeout))) \<noteq> None)
     = (\<not> falsy (url req_debug) \<and> \<not> falsy (selector req_debug)
        \<and> (debug_of req_debug \<or> NODE_ENV env_selector_missing = Some ''development''))"
    by auto
  from stack_in_error_response[of env_selector_missing req_css] 2
  have 4: "(eb_stack (timeout_body None) \<noteq> None)
     = (\<not> falsy (url req_css) \<and> \<not> falsy (selector req_css)
        \<and> (debug_of req_css \<or> NODE_ENV env_selector_missing = Some ''development''))"
    by auto
  from 1 2 3 4 show ?thesis by (intro conjI)
qed

text \<open>
  Claim C7 as stated fails: with \<^verbatim>\<open>NODE_ENV=development\<close> a request that did not set the
  debug flag receives the stack trace in its error response.
\<close>

theorem stack_without_debug_counterexample:
  "debug req_css = None \<and> debug_of req_css = False
   \<and> map r_body (responses (trace (snd (scrape env_development req_css))))
       = [JsonError (timeout_body (Some ''TimeoutError: Waiting for selector `h1` failed''))]"
  by (simp add: scrape_def section_defs prog_defs example_defs request_defs
      env_selector_missing_def env_development_def timeout_body_def statusCode_def)

section \<open>The identity handshake\<close>

lemma check_identity_run:
  "check_identity fr w s = (Inr (identifies w), emit (probe_events w) s)"
proof (cases "t_worker w")
  case (Inl err)
  then show ?thesis
    by (simp add: check_identity_def prog_defs identifies_def probe_events_def succeeds_def)
next
  case (Inr ctx)
  have "is_tab_duplicator (catch_null (identify_race fr (t_identify w)))
      = (t_identify w = Resolves (Reply (Some ''tab-duplicator'')))"
    by (auto simp: is_tab_duplicator_def catch_null_def identify_race_def
        split: settled.split ident_response.split)
  with Inr show ?thesis
    by (simp add: check_identity_def prog_defs identifies_def probe_events_def succeeds_def)
qed

lemma identity_loop_run:
  "identity_loop fr ws s
     = (Inr (find identifies ws), emit (concat (map probe_events (probed ws))) s)"
proof (induction ws arbitrary: s)
  case Nil
  show ?case by (simp add: pure_def)
next
  case (Cons w ws)
  show ?case
    by (simp add: seq_def check_identity_run Cons.IH pure_def)
qed


lemma not_found_run:
  assumes "dup_targets_result e = Inr targets"
    and "find identifies (serviceWorkers_of targets) = None"
  shows "fst (duplicateTabViaExtension e s)
     = Inl (new_Error (frames e) (not_found_message (serviceWorkers_of targets)))"
  using assms
  by (simp add: duplicateTabViaExtension_def prog_defs identity_loop_run)



section \<open>The side effect and the rest of the request\<close>

lemma appends_only_respond: "P (Respond r) \<Longrightarrow> appends_only P (respond r)"
  unfolding appends_only_def respond_def
  by (rule exI[of _ "Inr ()"], rule exI[of _ "[Respond r]"]) simp

lemma duplicateTabViaExtension_starts:
  "\<exists>devs. trace (snd (duplicateTabViaExtension e s)) = trace s @ BrowserTargets # devs"
proof -
  let ?rest = "\<lambda>targets.
        seq (identity_loop (frames e) (serviceWorkers_of targets)) (\<lambda>tabDuplicatorWorker.
        case tabDuplicatorWorker of
          None \<Rightarrow> throw (new_Error (frames e) (not_found_message (serviceWorkers_of targets)))
        | Some worker \<Rightarrow>
            seq (await (WorkerContext (t_url worker)) (t_worker_again worker)) (\<lambda>workerContext.
            await (SendDuplicateTab (t_url worker)) (send_duplicateTab (frames e) worker)))"
  have rest: "appends_only is_extension_event (?rest targets)" for targets
    by (intro appends_only_seq appends_only_identity_loop)
       (auto simp: appends_only_throw intro!: appends_only_seq appends_only_await
          split: option.split)
  show ?thesis
  proof (cases "dup_targets_result e")
    case (Inl err)
    then show ?thesis
      by (simp add: duplicateTabViaExtension_def prog_defs)
  next
    case (Inr targets)
    from rest[of targets] obtain r evs where "\<And>s. ?rest targets s = (r, emit evs s)"
      unfolding appends_only_def by blast
    with Inr show ?thesis
      by (cases r) (simp_all add: duplicateTabViaExtension_def seq_def await_def try_catch_def
          throw_def)
  qed
qed

lemma url_match_section_trace:
  "str_includes u ''wsj.com/'' \<Longrightarrow>
   trace (snd (url_match_section e u s)) = trace (snd (duplicateTabViaExtension e s))"
  by (cases "duplicateTabViaExtension e s")
     (auto simp: url_match_section_def try_catch_def seq_def pure_def split: sum.splits)

lemma try_catch_await_first:
  assumes "\<And>x. appends_only P (K x)" and "\<And>err. appends_only P (h err)"
  shows "\<exists>rest. snd (try_catch (seq (await ev outcome) K) h s) = emit (ev # rest) s"
proof (cases outcome)
  case (Inl err)
  from assms(2)[of err] obtain r evs where "\<And>t. h err t = (r, emit evs t)"
    unfolding appends_only_def by blast
  with Inl have "snd (try_catch (seq (await ev outcome) K) h s) = emit (ev # evs) s"
    by (simp add: try_catch_seq await_def)
  then show ?thesis by blast
next
  case (Inr x)
  from assms have "appends_only P (try_catch (K x) h)" by (intro appends_only_try_catch)
  then obtain r evs where "\<And>t. try_catch (K x) h t = (r, emit evs t)"
    unfolding appends_only_def by blast
  with Inr have "snd (try_catch (seq (await ev outcome) K) h s) = emit (ev # evs) s"
    by (simp add: try_catch_seq await_def)
  then show ?thesis by blast
qed

lemma extract_catch_run:
  "\<exists>rest. snd (try_catch (extract_section e sel m) (catch_block e dbg) s)
     = emit ((if m = ''xpath'' then EvaluateXPath sel else WaitForSelector sel 15000) # rest) s"
proof -
  have h: "appends_only (\<lambda>ev. True) (catch_block e dbg err)" for err
    unfolding catch_block_def by (rule appends_only_respond) simp
  show ?thesis
  proof (cases "m = ''xpath''")
    case True
    let ?K = "\<lambda>extractedData. respond \<lparr>r_status = 200, r_type = ''application/json'',
        r_body = JsonValue extractedData\<rparr>"
    from True have eq: "extract_section e sel m
        = seq (await (EvaluateXPath sel) (xpath_in_page (frames e) (document_evaluate e))) ?K"
      by (simp add: extract_section_def)
    have "\<exists>rest. snd (try_catch
        (seq (await (EvaluateXPath sel) (xpath_in_page (frames e) (document_evaluate e))) ?K)
        (catch_block e dbg) s) = emit (EvaluateXPath sel # rest) s"
      by (rule try_catch_await_first[OF _ h]) (rule appends_only_respond, simp)
    with True eq show ?thesis by simp
  next
    case False
    let ?K = "\<lambda>elementHandle.
        case elementHandle of
          None \<Rightarrow> throw (new_Error (frames e) (null_handle_message sel))
        | Some handle \<Rightarrow>
            seq (await HandleEvaluate (h_outerHTML handle)) (\<lambda>extractedData.
            seq (await HandleDispose (h_dispose handle)) (\<lambda>_.
            respond \<lparr>r_status = 200, r_type = ''text/html'', r_body = Html extractedData\<rparr>))"
    from False have eq: "extract_section e sel m
        = seq (await (WaitForSelector sel 15000) (waitForSelector_result e)) ?K"
      by (simp add: extract_section_def)
    have "appends_only (\<lambda>ev. True) (?K x)" for x
      by (auto intro!: appends_only_seq appends_only_await appends_only_respond
          appends_only_throw split: option.split)
    then have "\<exists>rest. snd (try_catch
        (seq (await (WaitForSelector sel 15000) (waitForSelector_result e)) ?K)
        (catch_block e dbg) s) = emit (WaitForSelector sel 15000 # rest) s"
      by (rule try_catch_await_first[OF _ h])
    with False eq show ?thesis by simp
  qed
qed

lemma uniform_after_side_effect:
  "uniform (try_catch (seq (settle_section e m) (\<lambda>_. extract_section e sel m))
      (catch_block e dbg))"
  unfolding settle_section_def extract_section_def catch_block_def
  by (auto intro!: uniform_try_catch uniform_seq uniform_await uniform_respond uniform_throw
      split: option.split)

lemma sections_ignore_extension:
  "launch_section (e\<lparr>dup_targets_result := d\<rparr>) = launch_section e"
  "navigate_section (e\<lparr>dup_targets_result := d\<rparr>) = navigate_section e"
  "settle_section (e\<lparr>dup_targets_result := d\<rparr>) = settle_section e"
  "extract_section (e\<lparr>dup_targets_result := d\<rparr>) = extract_section e"
  "catch_block (e\<lparr>dup_targets_result := d\<rparr>) = catch_block e"
  "finally_block (e\<lparr>dup_targets_result := d\<rparr>) = finally_block e"
  by (simp_all add: launch_section_def navigate_section_def settle_section_def
      extract_section_def catch_block_def finally_block_def remove_dir_def mkdtempSync_def
      fun_eq_iff cong: if_cong sum.case_cong option.case_cong)

lemma try_block_around_side_effect:
  "try_block e u sel m =
     seq (seq (launch_section e) (\<lambda>_. navigate_section e u))
       (\<lambda>_. seq (url_match_section e u)
          (\<lambda>_. seq (settle_section e m) (\<lambda>_. extract_section e sel m)))"
  by (simp add: try_block_def seq_assoc)

lemma body_responses_independent:
  "responses (trace (snd (try_catch (try_block (e\<lparr>dup_targets_result := d\<rparr>) u sel m)
        (catch_block e dbg) s)))
   = responses (trace (snd (try_catch (try_block e u sel m) (catch_block e dbg) s)))"
proof -
  let ?e' = "e\<lparr>dup_targets_result := d\<rparr>"
  let ?before = "seq (launch_section e) (\<lambda>_. navigate_section e u)"
  let ?after = "try_catch (seq (settle_section e m) (\<lambda>_. extract_section e sel m))
      (catch_block e dbg)"
  obtain evs where evs: "list_all is_extension_event evs"
    and um: "\<And>s. url_match_section e u s = (Inr (), emit evs s)"
    using url_match_section_run by blast
  obtain evs' where evs': "list_all is_extension_event evs'"
    and um': "\<And>s. url_match_section ?e' u s = (Inr (), emit evs' s)"
    using url_match_section_run by blast
  obtain r1 s1 where run: "?before s = (r1, s1)" by (cases "?before s")
  show ?thesis
  proof (cases r1)
    case (Inl err)
    with run show ?thesis
      by (simp add: try_block_around_side_effect sections_ignore_extension try_catch_seq)
  next
    case (Inr x)
    with run have 1: "try_catch (try_block e u sel m) (catch_block e dbg) s = ?after (emit evs s1)"
      by (simp add: try_block_around_side_effect try_catch_seq um)
    from Inr run have 2: "try_catch (try_block ?e' u sel m) (catch_block e dbg) s
        = ?after (emit evs' s1)"
      by (simp add: try_block_around_side_effect sections_ignore_extension try_catch_seq um')
    from uniform_after_side_effect[of e m sel dbg, unfolded uniform_def]
    have u: "responses (trace (snd (?after t)))
        = responses (trace t) @ responses (trace (snd (?after initial)))" for t
      by blast
    show ?thesis
      unfolding 1 2 u[of "emit evs s1"] u[of "emit evs' s1"]
      by (simp add: responses_extension[OF evs] responses_extension[OF evs'])
  qed
qed

text \<open>
  Claim C6. The responses of a request do not depend on what the extension side of the
  browser does (the targets it lists, the identities, the duplicateTab reply): the
  side-effect section never throws. When the URL contains \<^verbatim>\<open>wsj.com/\<close> and the page has
  loaded, \<^verbatim>\<open>duplicateTabViaExtension\<close> is run right after the navigation, starting with its
  \<^verbatim>\<open>browser.targets()\<close> call, and whether it returns or throws the handler goes on with the
  mouse move, the scroll, the delay and the extraction.
\<close>

theorem side_effect_failure_is_not_fatal:
  "responses (trace (snd (scrape (e\<lparr>dup_targets_result := d\<rparr>) req)))
     = responses (trace (snd (scrape e req)))
   \<and> fst (url_match_section e u s) = Inr ()
   \<and> (url req = Some u \<and> selector req = Some sel \<and> u \<noteq> [] \<and> sel \<noteq> []
        \<and> str_includes u ''wsj.com/'' \<and> reaches_extraction e
      \<longrightarrow> (\<exists>dir devs rest.
            trace (snd (duplicateTabViaExtension e initial)) = BrowserTargets # devs
            \<and> trace (snd (scrape e req))
              = [MkdtempSync, Launch dir, BrowserTargets, NewPage, SetViewport 1280 720,
                 SetUserAgent, Delay 3000, Goto u 45000]
                @ (BrowserTargets # devs)
                @ [MouseMove 100 100, ScrollBy 0 200, Delay (postNavDelay (method_of req)),
                   if method_of req = ''xpath'' then EvaluateXPath sel
                   else WaitForSelector sel 15000]
                @ rest))"
proof (intro conjI impI)
  let ?e' = "e\<lparr>dup_targets_result := d\<rparr>"
  have fin: "responses (trace (snd (finally_block e t))) = responses (trace t)" for t
    using preserves_responses_finally_block[of e] by (simp add: preserves_def)
  show "responses (trace (snd (scrape ?e' req))) = responses (trace (snd (scrape e req)))"
    by (simp add: scrape_cases sections_ignore_extension fin body_responses_independent)
  show "fst (url_match_section e u s) = Inr ()"
    by (rule url_match_section_never_throws)
next
  assume a: "url req = Some u \<and> selector req = Some sel \<and> u \<noteq> [] \<and> sel \<noteq> []
        \<and> str_includes u ''wsj.com/'' \<and> reaches_extraction e"
  then have valid: "url req = Some u" "selector req = Some sel" "u \<noteq> []" "sel \<noteq> []"
    and wsj: "str_includes u ''wsj.com/''" and reach: "reaches_extraction e"
    by simp_all
  let ?m = "method_of req"
  from try_block_reaches_extraction[OF reach, of u sel ?m]
  obtain dir evs where dir: "mkdtempSync e = Inr dir"
    and um: "\<And>s. url_match_section e u s = (Inr (), emit evs s)"
    and tb: "try_block e u sel ?m initial =
         extract_section e sel ?m
           \<lparr>browser = True, page = True, userDataDir = Some dir,
            trace = [MkdtempSync, Launch dir, BrowserTargets, NewPage, SetViewport 1280 720,
                     SetUserAgent, Delay 3000, Goto u 45000]
                    @ evs @ [MouseMove 100 100, ScrollBy 0 200, Delay (postNavDelay ?m)]\<rparr>"
    by blast
  let ?s3 = "\<lparr>browser = True, page = True, userDataDir = Some dir,
            trace = [MkdtempSync, Launch dir, BrowserTargets, NewPage, SetViewport 1280 720,
                     SetUserAgent, Delay 3000, Goto u 45000]
                    @ evs @ [MouseMove 100 100, ScrollBy 0 200, Delay (postNavDelay ?m)]\<rparr>"
  from um[of initial] have "evs = trace (snd (url_match_section e u initial))"
    by (simp add: initial_def)
  also from wsj have "\<dots> = trace (snd (duplicateTabViaExtension e initial))"
    by (rule url_match_section_trace)
  finally have evs: "trace (snd (duplicateTabViaExtension e initial)) = evs" by simp
  from duplicateTabViaExtension_starts[of e initial] evs
  obtain devs where devs: "evs = BrowserTargets # devs"
    by (auto simp: initial_def)
  define first where
    "first = (if ?m = ''xpath'' then EvaluateXPath sel else WaitForSelector sel 15000)"
  define s4 where
    "s4 = snd (try_catch (try_block e u sel ?m) (catch_block e (debug_of req)) initial)"
  from extract_catch_run[of e sel ?m "debug_of req" ?s3]
  obtain rest where rest: "snd (try_catch (extract_section e sel ?m) (catch_block e (debug_of req)) ?s3)
     = emit (first # rest) ?s3"
    unfolding first_def by blast
  have "try_catch (try_block e u sel ?m) (catch_block e (debug_of req)) initial
      = try_catch (extract_section e sel ?m) (catch_block e (debug_of req)) ?s3"
    by (simp add: try_catch_def tb)
  with rest have s4: "s4 = emit (first # rest) ?s3"
    by (simp only: s4_def)
  from valid have "scrape e req = (Inr (), snd (finally_block e s4))"
    by (simp add: scrape_cases falsy_def s4_def)
  moreover have "snd (finally_block e s4) = emit [PageClose, BrowserClose, removal e dir] s4"
    using mkdtempSync_nonempty[OF dir] by (simp add: finally_block_run s4)
  ultimately have "trace (snd (scrape e req))
      = trace ?s3 @ (first # rest) @ [PageClose, BrowserClose, removal e dir]"
    by (simp add: s4)
  with devs evs show "\<exists>dir devs rest.
            trace (snd (duplicateTabViaExtension e initial)) = BrowserTargets # devs
            \<and> trace (snd (scrape e req))
              = [MkdtempSync, Launch dir, BrowserTargets, NewPage, SetViewport 1280 720,
                 SetUserAgent, Delay 3000, Goto u 45000]
                @ (BrowserTargets # devs)
                @ [MouseMove 100 100, ScrollBy 0 200, Delay (postNavDelay (method_of req)),
                   if method_of req = ''xpath'' then EvaluateXPath sel
                   else WaitForSelector sel 15000]
                @ rest"
    by (intro exI[of _ dir] exI[of _ devs] exI[of _ "rest @ [PageClose, BrowserClose, removal e dir]"])
       (simp add: first_def)
qed

theorem side_effect_failure_is_not_fatal_witness:
  "\<not> succeeds (fst (duplicateTabViaExtension env_no_extension initial))
   \<and> responses (trace (snd (scrape env_no_extension req_wsj)))
     = responses (trace (snd (scrape env_ok req_wsj)))
   \<and> (\<exists>dir devs rest.
        trace (snd (duplicateTabViaExtension env_no_extension initial)) = BrowserTargets # devs
        \<and> trace (snd (scrape env_no_extension req_wsj))
          = [MkdtempSync, Launch dir, BrowserTargets, NewPage, SetViewport 1280 720,
             SetUserAgent, Delay 3000, Goto ''https://www.wsj.com/articles/x'' 45000]
            @ (BrowserTargets # devs)
            @ [MouseMove 100 100, ScrollBy 0 200, Delay (postNavDelay (method_of req_wsj)),
               if method_of req_wsj = ''xpath'' then EvaluateXPath ''//p/text()''
               else WaitForSelector ''//p/text()'' 15000]
            @ rest)"
proof -
  let ?targets = "[worker_a, worker_a\<lparr>t_type := ''page''\<rparr>, worker_silent]"
  have sw: "serviceWorkers_of ?targets = [worker_a, worker_silent]"
    by (simp add: serviceWorkers_of_def worker_a_def worker_silent_def worker_td_def)
  have "\<not> identifies worker_a" and "\<not> identifies worker_silent"
    by (simp_all add: identifies_def worker_a_def worker_td_def worker_silent_def succeeds_def)
  then have none: "find identifies (serviceWorkers_of ?targets) = None"
    by (simp add: sw)
  have "dup_targets_result env_no_extension = Inr ?targets"
    by (simp add: env_no_extension_def env_ok_def)
  from not_found_run[OF this none, of initial]
  have 1: "\<not> succeeds (fst (duplicateTabViaExtension env_no_extension initial))"
    by (simp add: succeeds_def)
  have eq: "env_no_extension\<lparr>dup_targets_result := Inr [worker_a, worker_td]\<rparr> = env_ok"
    by (simp add: env_no_extension_def env_ok_def)
  from side_effect_failure_is_not_fatal[where e = env_no_extension
      and d = "Inr [worker_a, worker_td]" and req = req_wsj, THEN conjunct1]
  have 2: "responses (trace (snd (scrape env_no_extension req_wsj)))
     = responses (trace (snd (scrape env_ok req_wsj)))"
    by (simp add: eq)
  have h: "url req_wsj = Some ''https://www.wsj.com/articles/x''
      \<and> selector req_wsj = Some ''//p/text()''
      \<and> ''https://www.wsj.com/articles/x'' \<noteq> [] \<and> ''//p/text()'' \<noteq> []
      \<and> str_includes ''https://www.wsj.com/articles/x'' ''wsj.com/''
      \<and> reaches_extraction env_no_extension"
    by (simp add: req_wsj_def reaches_extraction_def succeeds_def env_no_extension_def
        env_ok_def)
  note 3 = side_effect_failure_is_not_fatal[where e = env_no_extension and req = req_wsj
      and u = "''https://www.wsj.com/articles/x''" and sel = "''//p/text()''",
      THEN conjunct2, THEN conjunct2, THEN mp, OF h]
  from 1 2 3 show ?thesis by (intro conjI)
qed

end
